theory Spec2Isabelle
  imports Main "HOL-Library.Word" "HOL-Library.Signed_Division"
begin

section \<open>Go values used by the client\<close>

text \<open>
  Go's \<open>int64\<close> is a 64-bit word read as two's complement (\<open>sint\<close>); \<open>+\<close> and \<open>-\<close>
  wrap around as Go's do. A \<open>float64\<close> is carried as its 64 bits: the client stores and
  forwards such values, it never computes with them.
\<close>

type_synonym int64 = "64 word"

datatype float64 = Float64 (float64_bits: "64 word")

text \<open>
  Go's \<open>/\<close> and \<open>%\<close> on signed integers truncate towards zero, and the quotient of the
  most negative value by \<open>-1\<close> wraps. Both panic on a zero divisor: the callers below test
  the divisor first, as the runtime does.
\<close>

definition i64_quo :: "int64 \<Rightarrow> int64 \<Rightarrow> int64" where
  "i64_quo a b = word_of_int (sint a sdiv sint b)"

definition i64_rem :: "int64 \<Rightarrow> int64 \<Rightarrow> int64" where
  "i64_rem a b = word_of_int (sint a smod sint b)"

text \<open>Error values: the two kinds the design names, the errors of collaborators
  (transport, decoders), and \<open>fmt.Errorf\<close> wrapping an error with \<open>%w\<close>.\<close>

datatype error =
    EmptyRing
  | NoActiveNode
  | Failure string
  | Errorf string error

datatype panic = DivideByZero | NilDereference

text \<open>\<open>%d\<close> and \<open>strconv.FormatInt(_, 10)\<close>: decimal digits, a minus sign when negative.\<close>

fun show_nat :: "nat \<Rightarrow> string" where
  "show_nat n =
     (if n < 10 then [char_of (48 + n)]
      else show_nat (n div 10) @ [char_of (48 + n mod 10)])"

declare show_nat.simps [simp del]

definition show_int :: "int \<Rightarrow> string" where
  "show_int i = (if i < 0 then CHR ''-'' # show_nat (nat (- i)) else show_nat (nat i))"

definition show_i64 :: "int64 \<Rightarrow> string" where
  "show_i64 w = show_int (sint w)"

text \<open>\<open>strings.Join\<close>.\<close>

fun strings_Join :: "string list \<Rightarrow> string \<Rightarrow> string" where
  "strings_Join [] sep = []"
| "strings_Join [s] sep = s"
| "strings_Join (s # t # ss) sep = s @ sep @ strings_Join (t # ss) sep"

text \<open>
  The functions of Go's library that the client calls and that are not spelled out here
  are parameters: \<open>path.Join\<close>, \<open>url.QueryEscape\<close>, \<open>strconv.ParseInt(_, 10, 64)\<close> and
  \<open>strconv.ParseFloat(_, 64)\<close> (\<open>None\<close> when they return an error).
\<close>

record golib =
  path_Join :: "string list \<Rightarrow> string"
  QueryEscape :: "string \<Rightarrow> string"
  ParseInt :: "string \<Rightarrow> int64 option"
  ParseFloat :: "string \<Rightarrow> float64 option"

text \<open>
  A \<open>time.Time\<close> is read through \<open>Unix()\<close> (seconds since 1970, wrapping in \<open>int64\<close>)
  and its nanoseconds. \<open>IsZero\<close> holds for January 1, year 1, 00:00:00 UTC, which is
  \<open>-62135596800\<close> Unix seconds. A \<open>time.Duration\<close> is an \<open>int64\<close> count of
  nanoseconds.
\<close>

record Time =
  Unix :: int64
  Nanosecond :: nat

definition IsZero :: "Time \<Rightarrow> bool" where
  "IsZero t = (Unix t = - 62135596800 \<and> Nanosecond t = 0)"

type_synonym Duration = int64

definition Second :: Duration where
  "Second = 1000000000"

datatype Context = Background | WithCancel bool

section \<open>Nodes, the client and the transport\<close>

text \<open>
  Modelled from the spec: the node record (\<open>SnowthNode\<close>; the client's own file is not
  among the sources), with the fields the data model gives a NodeRecord.
\<close>

datatype NodeStatus = Active | Inactive | Unknown

record SnowthNode =
  nodeID :: string
  endpoint :: string
  weight :: int
  currentTopologyID :: string
  status :: NodeStatus
  lastChecked :: Time

type_synonym Header = "(string \<times> string) list"

text \<open>\<open>http.Header.Get\<close>: the first value stored under the key, the empty string when
  there is none.\<close>

definition Header_Get :: "Header \<Rightarrow> string \<Rightarrow> string" where
  "Header_Get h k = (case map_of h k of None \<Rightarrow> [] | Some v \<Rightarrow> v)"

text \<open>
  The network is a parameter: one request to one node (context, node, method, URL, body,
  headers) answers with an error or with the response's bytes and headers.
\<close>

type_synonym transport =
  "Context \<Rightarrow> SnowthNode option \<Rightarrow> string \<Rightarrow> string \<Rightarrow> string option \<Rightarrow> Header
     \<Rightarrow> error + (string \<times> Header option)"

text \<open>
  The client: the registry of nodes in registry order, the position of the rotating
  selection, and the history of the requests issued so far (node, method, URL), which a
  statement about which nodes were contacted reads.
\<close>

record SnowthClient =
  registry :: "SnowthNode list"
  cursor :: nat
  history :: "(SnowthNode option \<times> string \<times> string) list"

text \<open>
  \<open>DoRequestContext\<close> is the client's transport primitive. Its file is not among the
  sources, so what it answers is the parameter \<open>tr\<close>; every call of it is noted in the
  client's history.
\<close>

definition DoRequestContext ::
  "transport \<Rightarrow> SnowthClient \<Rightarrow> Context \<Rightarrow> SnowthNode option \<Rightarrow> string \<Rightarrow> string
     \<Rightarrow> string option \<Rightarrow> Header \<Rightarrow> (error + (string \<times> Header option)) \<times> SnowthClient" where
  "DoRequestContext tr sc ctx node method url body hdrs =
     (tr ctx node method url body hdrs,
      sc\<lparr>history := history sc @ [(node, method, url)]\<rparr>)"

text \<open>
  Modelled from the spec: \<open>sc.do\<close> (the client's own file is not among the sources) as
  the dispatcher's execution for a node given by the caller: the request is issued once; a
  transport error is returned as it is and leaves the target untouched; otherwise the
  injected decode step fills the target from the response's bytes and its error, if any,
  is the result.
\<close>

definition sc_do ::
  "transport \<Rightarrow> SnowthClient \<Rightarrow> Context \<Rightarrow> SnowthNode option \<Rightarrow> string \<Rightarrow> string
     \<Rightarrow> string option \<Rightarrow> 'a \<Rightarrow> (string \<Rightarrow> 'a \<Rightarrow> 'a \<times> error option)
     \<Rightarrow> ('a \<times> error option) \<times> SnowthClient" where
  "sc_do tr sc ctx node method url body target decode =
     (case DoRequestContext tr sc ctx node method url body [] of
        (Inl err, sc') \<Rightarrow> ((target, Some err), sc')
      | (Inr (r, _), sc') \<Rightarrow> (decode r target, sc'))"

text \<open>
  Modelled from the spec: the registry's active set and \<open>GetActiveNode\<close> (the client's
  own file is not among the sources). The active nodes are the registry's records whose
  status is \<open>Active\<close>, in registry order. The selection is the design's rotating,
  first-available one: the active node at the rotation's position, the first one when the
  rotation starts, and no node when none is active; each selection moves the rotation on.
\<close>

definition activeNodes :: "SnowthClient \<Rightarrow> SnowthNode list" where
  "activeNodes sc = filter (\<lambda>n. status n = Active) (registry sc)"

definition GetActiveNode :: "SnowthClient \<Rightarrow> SnowthNode option \<times> SnowthClient" where
  "GetActiveNode sc =
     (let act = activeNodes sc in
      if act = [] then (None, sc)
      else (Some (act ! (cursor sc mod length act)), sc\<lparr>cursor := Suc (cursor sc)\<rparr>))"

section \<open>Tag queries\<close>

text \<open>The result and option types of \<open>tags.go\<close>. A pointer that may be \<open>nil\<close> is an
  \<open>option\<close>; a slice is a list, \<open>nil\<close> being the empty one.\<close>

record FindTagsLatestNumeric =
  Time :: int64
  Value :: "float64 option"

record FindTagsLatestText =
  Time :: int64
  Value :: "string option"

record FindTagsLatestHistogram =
  Time :: int64
  Value :: "string option"

record FindTagsLatest =
  Numeric :: "FindTagsLatestNumeric list"
  Text :: "FindTagsLatestText list"
  Histogram :: "FindTagsLatestHistogram list"

record FindTagsItem =
  UUID :: string
  CheckTags :: "string list"
  MetricName :: string
  Type :: string
  AccountID :: int64
  Activity :: "int64 list list"
  Latest :: "FindTagsLatest option"

record FindTagsCount =
  Count :: int64
  Estimate :: bool

record FindTagsOptions =
  Start :: Time
  End :: Time
  Activity :: int64
  Latest :: int64
  CountOnly :: int64
  Limit :: int64

record FindTagsResult =
  Items :: "FindTagsItem list"
  FindCount :: "FindTagsCount option"
  Count :: int64

text \<open>
  The repository's helpers that \<open>FindTagsContext\<close> calls and that are not among the
  sources are parameters: \<open>sc.getURL\<close>, \<open>formatTimestamp\<close>, and \<open>decodeJSON\<close> at the two
  targets it is used with (each returns the filled target and its error, if any).
\<close>

record tags_deps =
  getURL :: "SnowthNode option \<Rightarrow> string \<Rightarrow> string"
  formatTimestamp :: "Time \<Rightarrow> string"
  decodeJSON_count :: "string \<Rightarrow> FindTagsCount option \<Rightarrow> FindTagsCount option \<times> error option"
  decodeJSON_items :: "string \<Rightarrow> FindTagsItem list \<Rightarrow> FindTagsItem list \<times> error option"

text \<open>
  The node of the request: the first of the \<open>nodes\<close> given when there is one and it is
  not \<open>nil\<close>, the client's active node otherwise.
\<close>

definition FindTags_node ::
  "SnowthClient \<Rightarrow> SnowthNode option list \<Rightarrow> SnowthNode option \<times> SnowthClient" where
  "FindTags_node sc nodes =
     (if length nodes > 0 \<and> hd nodes \<noteq> None then (hd nodes, sc) else GetActiveNode sc)"

text \<open>The URL and the headers of the request, as \<open>FindTagsContext\<close> builds them.\<close>

definition FindTags_url ::
  "golib \<Rightarrow> tags_deps \<Rightarrow> SnowthNode option \<Rightarrow> int64 \<Rightarrow> string \<Rightarrow> FindTagsOptions \<Rightarrow> string" where
  "FindTags_url L D node accountID query options =
     (let u0 = getURL D node (''/find/'' @ show_i64 accountID @ ''/tags'')
                 @ ''?query='' @ QueryEscape L query;
          u1 = (if \<not> IsZero (Start options) \<and> \<not> IsZero (End options)
                   \<and> Unix (Start options) \<noteq> 0 \<and> Unix (End options) \<noteq> 0
                then u0 @ ''&activity_start_secs='' @ formatTimestamp D (Start options)
                        @ ''&activity_end_secs='' @ formatTimestamp D (End options)
                else u0);
          u2 = u1 @ ''&activity='' @ show_i64 (Activity options);
          u3 = u2 @ ''&latest='' @ show_i64 (Latest options)
      in if CountOnly options \<noteq> 0
         then u3 @ ''&count_only='' @ show_i64 (CountOnly options) else u3)"

definition FindTags_headers :: "FindTagsOptions \<Rightarrow> Header" where
  "FindTags_headers options =
     (if Limit options \<noteq> 0
      then [(''X-Snowth-Advisory-Limit'', show_i64 (Limit options))] else [])"

text \<open>The decode step: into \<open>r.FindCount\<close> for a count-only query, into \<open>r.Items\<close>
  otherwise.\<close>

definition FindTags_decode ::
  "tags_deps \<Rightarrow> FindTagsOptions \<Rightarrow> string \<Rightarrow> FindTagsResult \<Rightarrow> FindTagsResult \<times> error option" where
  "FindTags_decode D options body r =
     (if CountOnly options \<noteq> 0
      then (case decodeJSON_count D body (FindCount r) of (c, e) \<Rightarrow> (r\<lparr>FindCount := c\<rparr>, e))
      else (case decodeJSON_items D body (Items r) of (is, e) \<Rightarrow> (r\<lparr>Items := is\<rparr>, e)))"

text \<open>The result count: the number of items, replaced by the response's
  \<open>X-Snowth-Search-Result-Count\<close> header when that parses as an integer.\<close>

definition FindTags_count :: "golib \<Rightarrow> Header option \<Rightarrow> FindTagsResult \<Rightarrow> FindTagsResult" where
  "FindTags_count L header r =
     (let r' = r\<lparr>Count := of_nat (length (Items r))\<rparr> in
      case header of
        None \<Rightarrow> r'
      | Some h \<Rightarrow>
          (let c = Header_Get h ''X-Snowth-Search-Result-Count'' in
           if c \<noteq> [] then (case ParseInt L c of Some cv \<Rightarrow> r'\<lparr>Count := cv\<rparr> | None \<Rightarrow> r')
           else r'))"

text \<open>
  \<open>FindTagsContext\<close>. Dereferencing \<open>options\<close> when it is \<open>nil\<close> panics, after the node
  has been chosen and before any request. A transport error is returned as it is; a
  decode error is returned wrapped by \<open>fmt.Errorf\<close>; in both cases the result is \<open>nil\<close>.
\<close>

definition FindTagsContext ::
  "transport \<Rightarrow> golib \<Rightarrow> tags_deps \<Rightarrow> SnowthClient \<Rightarrow> Context \<Rightarrow> int64 \<Rightarrow> string
     \<Rightarrow> FindTagsOptions option \<Rightarrow> SnowthNode option list
     \<Rightarrow> (panic + (FindTagsResult option \<times> error option)) \<times> SnowthClient" where
  "FindTagsContext tr L D sc ctx accountID query options nodes =
     (case FindTags_node sc nodes of
        (node, sc1) \<Rightarrow>
          (case options of
             None \<Rightarrow> (Inl NilDereference, sc1)
           | Some opts \<Rightarrow>
               (let u = FindTags_url L D node accountID query opts;
                    hdrs = FindTags_headers opts;
                    r = \<lparr>Items = [], FindCount = None, Count = 0\<rparr>
                in case DoRequestContext tr sc1 ctx node ''GET'' u None hdrs of
                     (Inl err, sc2) \<Rightarrow> (Inr (None, Some err), sc2)
                   | (Inr (body, header), sc2) \<Rightarrow>
                       (case FindTags_decode D opts body r of
                          (r1, Some err) \<Rightarrow>
                            (Inr (None, Some (Errorf ''unable to decode IRONdb response: '' err)),
                             sc2)
                        | (r1, None) \<Rightarrow>
                            (Inr (Some (FindTags_count L header r1), None), sc2)))))"

definition FindTags ::
  "transport \<Rightarrow> golib \<Rightarrow> tags_deps \<Rightarrow> SnowthClient \<Rightarrow> int64 \<Rightarrow> string
     \<Rightarrow> FindTagsOptions option \<Rightarrow> SnowthNode option list
     \<Rightarrow> (panic + (FindTagsResult option \<times> error option)) \<times> SnowthClient" where
  "FindTags tr L D sc accountID query options nodes =
     FindTagsContext tr L D sc Background accountID query options nodes"

section \<open>JSON documents\<close>

text \<open>
  The syntax of \<open>encoding/json\<close>: the values of a document, a number as its literal and
  a string as the text between its quotes. At most one value of a syntactically valid
  document, \<open>None\<close> for any other input. The decoding functions below take the scanner
  as a parameter; \<open>json_scan\<close> is the scanner of the JSON grammar.
\<close>

datatype json =
    JNull
  | JBool bool
  | JNumber string
  | JString string
  | JArray "json list"
  | JObject "(string \<times> json) list"

definition is_space :: "char \<Rightarrow> bool" where
  "is_space c = (c = CHR '' '' \<or> c = CHR 0x09 \<or> c = CHR 0x0D \<or> c = CHR 0x0A)"

definition is_digit :: "char \<Rightarrow> bool" where
  "is_digit c = (c \<in> set ''0123456789'')"

definition is_hex :: "char \<Rightarrow> bool" where
  "is_hex c = (c \<in> set ''0123456789abcdefABCDEF'')"

definition skip_ws :: "string \<Rightarrow> string" where
  "skip_ws s = dropWhile is_space s"

text \<open>The number grammar: an optional minus sign, \<open>0\<close> or a run of digits, an optional
  fraction and an optional exponent, each with at least one digit.\<close>

definition scan_digits1 :: "string \<Rightarrow> (string \<times> string) option" where
  "scan_digits1 s =
     (if takeWhile is_digit s = [] then None
      else Some (takeWhile is_digit s, dropWhile is_digit s))"

definition scan_int_part :: "string \<Rightarrow> (string \<times> string) option" where
  "scan_int_part s =
     (case s of
        [] \<Rightarrow> None
      | c # t \<Rightarrow> if c = CHR ''0'' then Some (''0'', t) else scan_digits1 s)"

definition scan_frac :: "string \<Rightarrow> (string \<times> string) option" where
  "scan_frac s =
     (case s of
        c # t \<Rightarrow>
          if c = CHR ''.'' then
            (case scan_digits1 t of None \<Rightarrow> None | Some (ds, r) \<Rightarrow> Some (c # ds, r))
          else Some ([], s)
      | [] \<Rightarrow> Some ([], s))"

definition scan_exp :: "string \<Rightarrow> (string \<times> string) option" where
  "scan_exp s =
     (case s of
        c # t \<Rightarrow>
          if c = CHR ''e'' \<or> c = CHR ''E'' then
            (case t of
               d # u \<Rightarrow>
                 if d = CHR ''+'' \<or> d = CHR ''-'' then
                   (case scan_digits1 u of None \<Rightarrow> None | Some (ds, r) \<Rightarrow> Some (c # d # ds, r))
                 else (case scan_digits1 t of None \<Rightarrow> None | Some (ds, r) \<Rightarrow> Some (c # ds, r))
             | [] \<Rightarrow> None)
          else Some ([], s)
      | [] \<Rightarrow> Some ([], s))"

definition scan_number :: "string \<Rightarrow> (string \<times> string) option" where
  "scan_number s =
     (let (sign, s1) = (case s of c # t \<Rightarrow> if c = CHR ''-'' then ([c], t) else ([], s) | [] \<Rightarrow> ([], s))
      in case scan_int_part s1 of
           None \<Rightarrow> None
         | Some (i, s2) \<Rightarrow>
             (case scan_frac s2 of
                None \<Rightarrow> None
              | Some (f, s3) \<Rightarrow>
                  (case scan_exp s3 of
                     None \<Rightarrow> None
                   | Some (e, s4) \<Rightarrow> Some (sign @ i @ f @ e, s4))))"

text \<open>A string after its opening quote, up to the closing one; the text between the
  quotes is kept as it stands. A control character and an unknown escape are errors.\<close>

fun scan_string :: "string \<Rightarrow> string \<Rightarrow> (string \<times> string) option" where
  "scan_string acc [] = None"
| "scan_string acc [c] = (if c = CHR 0x22 then Some (acc, []) else None)"
| "scan_string acc (c # d # t) =
     (if c = CHR 0x22 then Some (acc, d # t)
      else if c = CHR 0x5C then
        (if d \<in> set ''bfnrt/'' \<or> d = CHR 0x5C \<or> d = CHR 0x22 then scan_string (acc @ [c, d]) t
         else if d = CHR ''u'' \<and> length (take 4 t) = 4 \<and> list_all is_hex (take 4 t)
           then scan_string (acc @ c # d # take 4 t) (drop 4 t)
         else None)
      else if of_char c < (32 :: nat) then None
      else scan_string (acc @ [c]) (d # t))"

text \<open>Values, array elements and object members. The first argument bounds the number
  of nested calls; \<open>json_scan\<close> gives two calls per byte of input, and no input needs
  more, since every second call has consumed a byte.\<close>

fun scan_value :: "nat \<Rightarrow> string \<Rightarrow> (json \<times> string) option"
  and scan_elems :: "nat \<Rightarrow> string \<Rightarrow> (json list \<times> string) option"
  and scan_members :: "nat \<Rightarrow> string \<Rightarrow> ((string \<times> json) list \<times> string) option" where
  "scan_value 0 s = None"
| "scan_value (Suc n) s =
     (case skip_ws s of
        [] \<Rightarrow> None
      | c # t \<Rightarrow>
          if c = CHR ''n'' then (if take 3 t = ''ull'' then Some (JNull, drop 3 t) else None)
          else if c = CHR ''t'' then (if take 3 t = ''rue'' then Some (JBool True, drop 3 t) else None)
          else if c = CHR ''f'' then (if take 4 t = ''alse'' then Some (JBool False, drop 4 t) else None)
          else if c = CHR 0x22 then
            (case scan_string [] t of None \<Rightarrow> None | Some (str, r) \<Rightarrow> Some (JString str, r))
          else if c = CHR ''['' then
            (case skip_ws t of
               [] \<Rightarrow> None
             | d # r \<Rightarrow>
                 if d = CHR '']'' then Some (JArray [], r)
                 else (case scan_elems n t of None \<Rightarrow> None | Some (xs, r') \<Rightarrow> Some (JArray xs, r')))
          else if c = CHR ''{'' then
            (case skip_ws t of
               [] \<Rightarrow> None
             | d # r \<Rightarrow>
                 if d = CHR ''}'' then Some (JObject [], r)
                 else (case scan_members n t of None \<Rightarrow> None | Some (ms, r') \<Rightarrow> Some (JObject ms, r')))
          else if c = CHR ''-'' \<or> is_digit c then
            (case scan_number (c # t) of None \<Rightarrow> None | Some (lit, r) \<Rightarrow> Some (JNumber lit, r))
          else None)"
| "scan_elems 0 s = None"
| "scan_elems (Suc n) s =
     (case scan_value n s of
        None \<Rightarrow> None
      | Some (v, r) \<Rightarrow>
          (case skip_ws r of
             [] \<Rightarrow> None
           | c # r' \<Rightarrow>
               if c = CHR '','' then
                 (case scan_elems n r' of None \<Rightarrow> None | Some (vs, r'') \<Rightarrow> Some (v # vs, r''))
               else if c = CHR '']'' then Some ([v], r')
               else None))"
| "scan_members 0 s = None"
| "scan_members (Suc n) s =
     (case skip_ws s of
        [] \<Rightarrow> None
      | q # t \<Rightarrow>
          if q \<noteq> CHR 0x22 then None
          else
            (case scan_string [] t of
               None \<Rightarrow> None
             | Some (k, r) \<Rightarrow>
                 (case skip_ws r of
                    [] \<Rightarrow> None
                  | c # r1 \<Rightarrow>
                      if c \<noteq> CHR '':'' then None
                      else
                        (case scan_value n r1 of
                           None \<Rightarrow> None
                         | Some (v, r2) \<Rightarrow>
                             (case skip_ws r2 of
                                [] \<Rightarrow> None
                              | d # r3 \<Rightarrow>
                                  if d = CHR '','' then
                                    (case scan_members n r3 of
                                       None \<Rightarrow> None
                                     | Some (ms, r4) \<Rightarrow> Some ((k, v) # ms, r4))
                                  else if d = CHR ''}'' then Some ([(k, v)], r3)
                                  else None)))))"

text \<open>A whole document: one value, with nothing but white space after it.\<close>

definition json_scan :: "string \<Rightarrow> json option" where
  "json_scan b =
     (case scan_value (2 * length b + 2) b of
        None \<Rightarrow> None
      | Some (v, r) \<Rightarrow> if skip_ws r = [] then Some v else None)"

text \<open>\<open>strconv.ParseInt(s, 10, 64)\<close>: an optional sign, decimal digits, within
  \<open>int64\<close>.\<close>

definition parse_int64 :: "string \<Rightarrow> int64 option" where
  "parse_int64 s =
     (let (neg, ds) = (case s of
                         c # t \<Rightarrow> if c = CHR ''-'' then (True, t)
                                  else if c = CHR ''+'' then (False, t) else (False, s)
                       | [] \<Rightarrow> (False, []));
          n = foldl (\<lambda>a c. 10 * a + (int (of_char c) - 48)) 0 ds;
          v = (if neg then - n else n)
      in if ds = [] \<or> \<not> list_all is_digit ds then None
         else if - (2 ^ 63) \<le> v \<and> v < 2 ^ 63 then Some (word_of_int v) else None)"

section \<open>Rollup values\<close>

record RollupValues =
  Timestamp :: int64
  Value :: float64

text \<open>
  \<open>RollupValues.UnmarshalJSON\<close> hands \<open>json.Unmarshal\<close> the slice
  \<open>tt = []interface{}{&rv.Timestamp, &rv.Value}\<close>. An element of such a slice holds a
  pointer to one of the two fields, \<open>nil\<close>, or a decoded value.
\<close>

datatype iface = PtrTimestamp | PtrValue | NilValue | Decoded json

definition json_kind :: "json \<Rightarrow> string" where
  "json_kind x =
     (case x of
        JNull \<Rightarrow> ''null'' | JBool b \<Rightarrow> ''bool'' | JNumber s \<Rightarrow> ''number '' @ s
      | JString s \<Rightarrow> ''string'' | JArray xs \<Rightarrow> ''array'' | JObject ms \<Rightarrow> ''object'')"

definition type_error :: "json \<Rightarrow> string \<Rightarrow> error" where
  "type_error x ty =
     Failure (''json: cannot unmarshal '' @ json_kind x @ '' into Go value of type '' @ ty)"

text \<open>The number literals of a value, in document order: storing a value in an empty
  interface fails on the first one that is not a \<open>float64\<close>.\<close>

primrec numbers :: "json \<Rightarrow> string list" where
  "numbers JNull = []"
| "numbers (JBool b) = []"
| "numbers (JNumber s) = [s]"
| "numbers (JString s) = []"
| "numbers (JArray xs) = concat (map numbers xs)"
| "numbers (JObject ms) = concat (map snd (map (map_prod id numbers) ms))"

definition store_interface :: "golib \<Rightarrow> json \<Rightarrow> iface \<times> error option" where
  "store_interface L x =
     (if x = JNull then NilValue else Decoded x,
      case find (\<lambda>s. ParseFloat L s = None) (numbers x) of
        None \<Rightarrow> None
      | Some s \<Rightarrow> Some (type_error (JNumber s) ''float64''))"

text \<open>
  What \<open>json.Unmarshal\<close> does with one element of the slice and one value of the array.
  \<open>null\<close> sets the element itself to \<open>nil\<close> and leaves the field it pointed to alone. A
  number is parsed into the field a pointer leads to; a number that does not parse, and
  any other value, is a type error that leaves the field alone. An element that holds no
  pointer takes the decoded value.
\<close>

definition store_Timestamp ::
  "golib \<Rightarrow> json \<Rightarrow> RollupValues \<Rightarrow> iface \<times> RollupValues \<times> error option" where
  "store_Timestamp L x rv =
     (case x of
        JNull \<Rightarrow> (NilValue, rv, None)
      | JNumber s \<Rightarrow>
          (case ParseInt L s of
             Some n \<Rightarrow> (PtrTimestamp, rv\<lparr>Timestamp := n\<rparr>, None)
           | None \<Rightarrow> (PtrTimestamp, rv, Some (type_error x ''int64'')))
      | _ \<Rightarrow> (PtrTimestamp, rv, Some (type_error x ''int64'')))"

definition store_Value ::
  "golib \<Rightarrow> json \<Rightarrow> RollupValues \<Rightarrow> iface \<times> RollupValues \<times> error option" where
  "store_Value L x rv =
     (case x of
        JNull \<Rightarrow> (NilValue, rv, None)
      | JNumber s \<Rightarrow>
          (case ParseFloat L s of
             Some f \<Rightarrow> (PtrValue, rv\<lparr>Value := f\<rparr>, None)
           | None \<Rightarrow> (PtrValue, rv, Some (type_error x ''float64'')))
      | _ \<Rightarrow> (PtrValue, rv, Some (type_error x ''float64'')))"

fun store ::
  "golib \<Rightarrow> iface \<Rightarrow> json \<Rightarrow> RollupValues \<Rightarrow> iface \<times> RollupValues \<times> error option" where
  "store L PtrTimestamp x rv = store_Timestamp L x rv"
| "store L PtrValue x rv = store_Value L x rv"
| "store L slot x rv = (fst (store_interface L x), rv, snd (store_interface L x))"

text \<open>
  An array into the slice: the i-th value goes into the i-th element, the slice grows by
  empty elements when the array is longer and is cut to the array's length when it is
  shorter. Decoding goes on after an error; the first error is the one reported.
\<close>

fun store_array ::
  "golib \<Rightarrow> iface list \<Rightarrow> json list \<Rightarrow> RollupValues
     \<Rightarrow> iface list \<times> RollupValues \<times> error option" where
  "store_array L slots [] rv = ([], rv, None)"
| "store_array L slots (x # xs) rv =
     (case store L (case slots of [] \<Rightarrow> NilValue | s # _ \<Rightarrow> s) x rv of
        (slot', rv1, e1) \<Rightarrow>
          (case store_array L (tl slots) xs rv1 of
             (rest, rv2, e2) \<Rightarrow>
               (slot' # rest, rv2, case e1 of Some e \<Rightarrow> Some e | None \<Rightarrow> e2)))"

text \<open>
  \<open>json.Unmarshal(b, &tt)\<close>: a syntax error touches nothing; \<open>null\<close> sets the slice to
  \<open>nil\<close>; an array is stored element by element; any other value is a type error that
  leaves the slice as it was.
\<close>

definition json_Unmarshal ::
  "(string \<Rightarrow> json option) \<Rightarrow> golib \<Rightarrow> string \<Rightarrow> iface list \<Rightarrow> RollupValues
     \<Rightarrow> iface list \<times> RollupValues \<times> error option" where
  "json_Unmarshal scan L b tt rv =
     (case scan b of
        None \<Rightarrow> (tt, rv, Some (Failure ''json: syntax error''))
      | Some JNull \<Rightarrow> ([], rv, None)
      | Some (JArray xs) \<Rightarrow> store_array L tt xs rv
      | Some x \<Rightarrow> (tt, rv, Some (type_error x ''[]interface {}'')))"

text \<open>\<open>RollupValues.UnmarshalJSON\<close>: the receiver as the call leaves it, and the error
  returned. The error of \<open>json.Unmarshal\<close> is dropped.\<close>

definition RollupValues_UnmarshalJSON ::
  "(string \<Rightarrow> json option) \<Rightarrow> golib \<Rightarrow> RollupValues \<Rightarrow> string
     \<Rightarrow> RollupValues \<times> error option" where
  "RollupValues_UnmarshalJSON scan L rv b =
     (case json_Unmarshal scan L b [PtrTimestamp, PtrValue] rv of
        (tt, rv', _) \<Rightarrow>
          if length tt < 2
          then (rv', Some (Failure (''rollup value should contain two entries, ''
                                     @ show_nat (length tt) @ '' given in payload'')))
          else (rv', None))"

text \<open>
  The repository's \<open>decodeJSON\<close> for a slice of rollup values is a parameter of
  \<open>ReadRollupValues\<close>, as the library functions are.
\<close>

text \<open>\<open>int64(rollup/time.Second)\<close>, the divisor of both remainders.\<close>

definition rollup_span :: "Duration \<Rightarrow> int64" where
  "rollup_span rollup = i64_quo rollup Second"

text \<open>The first two statements of \<open>ReadRollupValues\<close>: \<open>startTS\<close> and \<open>endTS\<close>, or
  the runtime's panic when the divisor is zero.\<close>

definition rollup_bounds :: "Duration \<Rightarrow> Time \<Rightarrow> Time \<Rightarrow> panic + (int64 \<times> int64)" where
  "rollup_bounds rollup start end' =
     (let d = rollup_span rollup in
      if d = 0 then Inl DivideByZero
      else Inr (Unix start - i64_rem (Unix start) d,
                Unix end' - i64_rem (Unix end') d + d))"

definition ReadRollupValues ::
  "transport \<Rightarrow> golib
     \<Rightarrow> (string \<Rightarrow> RollupValues list \<Rightarrow> RollupValues list \<times> error option)
     \<Rightarrow> SnowthClient \<Rightarrow> SnowthNode option \<Rightarrow> string \<Rightarrow> string
     \<Rightarrow> string list \<Rightarrow> Duration \<Rightarrow> Time \<Rightarrow> Time
     \<Rightarrow> (panic + (RollupValues list \<times> error option)) \<times> SnowthClient" where
  "ReadRollupValues tr L decodeJSON sc node id' metric tags rollup start end' =
     (case rollup_bounds rollup start end' of
        Inl p \<Rightarrow> (Inl p, sc)
      | Inr (startTS, endTS) \<Rightarrow>
          (let metricBuilder =
                 metric @ (if length tags > 0
                           then ''|ST['' @ strings_Join tags '','' @ '']'' else []);
               u = path_Join L [''/rollup'', id', QueryEscape L metricBuilder]
                     @ ''?start_ts='' @ show_i64 startTS
                     @ ''&end_ts='' @ show_i64 endTS
                     @ ''&rollup_span='' @ show_i64 (rollup_span rollup) @ ''s'';
               (res, sc') = sc_do tr sc Background node ''GET'' u None [] decodeJSON
           in (Inr res, sc')))"

section \<open>The topology ring\<close>

text \<open>
  \<open>TopoRingDetail\<close> and \<open>TopoRing\<close> as the client declares them, field by field. An
  \<open>XMLName\<close> is an \<open>xml.Name\<close>: the name space and the local name of the XML element the
  value stands for. The type of a location is a parameter: the client's is \<open>float64\<close>;
  the ring lookup needs positions that are totally ordered.
\<close>

record xml_Name =
  Space :: string
  Local :: string

record 'f TopoRingDetail =
  XMLName :: xml_Name
  ID :: string
  IDX :: int
  Location :: 'f

record 'f TopoRing =
  XMLName :: xml_Name
  VirtualNodes :: "'f TopoRingDetail list"
  NumberNodes :: int

text \<open>\<open>new(TopoRing)\<close>: every field at its zero value.\<close>

definition new_TopoRing :: "'f TopoRing" where
  "new_TopoRing =
     \<lparr>XMLName = \<lparr>Space = [], Local = []\<rparr>, VirtualNodes = [], NumberNodes = 0\<rparr>"

text \<open>
  \<open>GetTopoRingInfoContext\<close>: a fresh ring, filled by \<open>sc.do\<close> with a \<open>GET\<close> of
  \<open>path.Join("/toporing/xml", hash)\<close> decoded by \<open>decodeXML\<close>; the ring and the error
  are returned together. \<open>path.Join\<close> and \<open>decodeXML\<close> are parameters.
\<close>

definition GetTopoRingInfoContext ::
  "transport \<Rightarrow> golib
     \<Rightarrow> (string \<Rightarrow> 'f TopoRing \<Rightarrow> 'f TopoRing \<times> error option)
     \<Rightarrow> SnowthClient \<Rightarrow> Context \<Rightarrow> string \<Rightarrow> SnowthNode option
     \<Rightarrow> ('f TopoRing \<times> error option) \<times> SnowthClient" where
  "GetTopoRingInfoContext tr L decodeXML sc ctx hash node =
     (let tr0 = new_TopoRing in
      sc_do tr sc ctx node ''GET'' (path_Join L [''/toporing/xml'', hash]) None tr0 decodeXML)"

definition GetTopoRingInfo ::
  "transport \<Rightarrow> golib
     \<Rightarrow> (string \<Rightarrow> 'f TopoRing \<Rightarrow> 'f TopoRing \<times> error option)
     \<Rightarrow> SnowthClient \<Rightarrow> string \<Rightarrow> SnowthNode option
     \<Rightarrow> ('f TopoRing \<times> error option) \<times> SnowthClient" where
  "GetTopoRingInfo tr L decodeXML sc hash node =
     GetTopoRingInfoContext tr L decodeXML sc Background hash node"

subsection \<open>The ring locator\<close>

text \<open>
  Modelled from the spec: the ring (an ordered sequence of descriptors plus a replication
  factor) and \<open>locate\<close>; the sources hold the descriptor type only, no lookup. The design's
  algorithm: hash the key; binary search for the first descriptor whose position is at
  least the hash; wrap to the first descriptor when there is none; from there walk
  forward once around the ring, collecting up to \<open>replicationFactor\<close> descriptors and
  skipping node IDs already collected. An empty ring is the error \<open>EmptyRing\<close>.
\<close>

record 'f Ring =
  descriptors :: "'f TopoRingDetail list"
  replicationFactor :: int

text \<open>The ring's invariant: descriptors in ascending order of position.\<close>

definition ring_sorted :: "('f::linorder) TopoRingDetail list \<Rightarrow> bool" where
  "ring_sorted ds = sorted (map Location ds)"

function lower_bound ::
  "('f::linorder) TopoRingDetail list \<Rightarrow> 'f \<Rightarrow> nat \<Rightarrow> nat \<Rightarrow> nat" where
  "lower_bound ds h lo hi =
     (if lo < hi then
        (if Location (ds ! ((lo + hi) div 2)) < h
         then lower_bound ds h ((lo + hi) div 2 + 1) hi
         else lower_bound ds h lo ((lo + hi) div 2))
      else lo)"
  by pat_completeness auto
termination
  by (relation "measure (\<lambda>(ds, h, lo, hi). hi - lo)") auto

declare lower_bound.simps [simp del]

fun collect ::
  "nat \<Rightarrow> 'f TopoRingDetail list \<Rightarrow> 'f TopoRingDetail list \<Rightarrow> 'f TopoRingDetail list" where
  "collect rf acc [] = acc"
| "collect rf acc (d # ds) =
     (if rf \<le> length acc then acc
      else if ID d \<in> set (map ID acc) then collect rf acc ds
      else collect rf (acc @ [d]) ds)"

definition locate ::
  "('k \<Rightarrow> 'f) \<Rightarrow> ('f::linorder) Ring \<Rightarrow> 'k \<Rightarrow> error + 'f TopoRingDetail list" where
  "locate hash ring key =
     (let ds = descriptors ring in
      if ds = [] then Inl EmptyRing
      else
        (let h = hash key;
             i = lower_bound ds h 0 (length ds);
             start = (if i = length ds then 0 else i)
         in Inr (collect (nat (replicationFactor ring)) [] (drop start ds @ take start ds))))"




text \<open>The design's example scenario: nodes A, B and C at positions 10, 40 and 90, two
  owners per key, and the key's own value as its hash. Each descriptor stands for a
  \<open>vnode\<close> element.\<close>

definition example_vnode :: "string \<Rightarrow> int \<Rightarrow> 'f \<Rightarrow> 'f TopoRingDetail" where
  "example_vnode name i pos =
     \<lparr>TopoRingDetail.XMLName = \<lparr>Space = [], Local = ''vnode''\<rparr>,
      ID = name, IDX = i, Location = pos\<rparr>"

definition example_ring :: "int Ring" where
  "example_ring =
     \<lparr>descriptors =
        [example_vnode ''A'' 0 10, example_vnode ''B'' 1 40, example_vnode ''C'' 2 90],
      replicationFactor = 2\<rparr>"

section \<open>An example cluster\<close>

text \<open>
  A client of three nodes, the second one inactive, and canned collaborators for them: a
  transport under which the first node answers, the second answers with a page that is no
  JSON, and the third refuses the connection; decoders that know the canned answers.
\<close>

definition example_node :: "string \<Rightarrow> NodeStatus \<Rightarrow> SnowthNode" where
  "example_node name st =
     \<lparr>nodeID = name, endpoint = ''http://'' @ name @ '':8112'', weight = 32,
      currentTopologyID = ''topo1'', status = st, lastChecked = \<lparr>Unix = 0, Nanosecond = 0\<rparr>\<rparr>"

definition example_client :: SnowthClient where
  "example_client =
     \<lparr>registry = [example_node ''n1'' Active, example_node ''n2'' Inactive,
                  example_node ''n3'' Active],
      cursor = 0, history = []\<rparr>"

definition example_transport :: transport where
  "example_transport ctx node method url body hdrs =
     (case node of
        None \<Rightarrow> Inl (Failure ''no node'')
      | Some n \<Rightarrow>
          if nodeID n = ''n1'' then Inr (''[]'', Some [(''X-Snowth-Search-Result-Count'', ''0'')])
          else if nodeID n = ''n2'' then Inr (''<html>'', None)
          else Inl (Failure ''connection refused''))"

definition example_lib :: golib where
  "example_lib =
     \<lparr>path_Join = (\<lambda>ps. strings_Join ps ''/''), QueryEscape = (\<lambda>s. s),
      ParseInt = parse_int64,
      ParseFloat = (\<lambda>s. if s = ''50'' then Some (Float64 0x4049000000000000) else None)\<rparr>"

definition example_deps :: tags_deps where
  "example_deps =
     \<lparr>getURL = (\<lambda>node ref. (case node of None \<Rightarrow> [] | Some n \<Rightarrow> endpoint n) @ ref),
      formatTimestamp = (\<lambda>t. show_i64 (Unix t)),
      decodeJSON_count = (\<lambda>b c. (c, Some (Failure ''invalid character''))),
      decodeJSON_items =
        (\<lambda>b is. if json_scan b = Some (JArray []) then ([], None)
                 else (is, Some (Failure ''invalid character'')))\<rparr>"

definition example_options :: FindTagsOptions where
  "example_options =
     \<lparr>Start = \<lparr>Unix = 0, Nanosecond = 0\<rparr>, End = \<lparr>Unix = 0, Nanosecond = 0\<rparr>,
      Activity = 0, Latest = 0, CountOnly = 0, Limit = 0\<rparr>"

section \<open>Properties of the rollup time span\<close>

text \<open>Signed division and remainder on \<open>int\<close>, and how \<open>int64\<close> reads them.\<close>

lemma abs_div_abs_nonneg: "0 \<le> \<bar>k\<bar> div \<bar>l\<bar>" for k l :: int
  by (simp add: div_int_pos_iff)

lemma abs_mod_abs_nonneg: "0 \<le> \<bar>k\<bar> mod \<bar>l\<bar>" for k l :: int
  by (cases "l = 0") simp_all

lemma abs_sdiv_int: "\<bar>k sdiv l\<bar> = \<bar>k\<bar> div \<bar>l\<bar>" for k l :: int
  using abs_div_abs_nonneg [of k l]
  by (cases "k = 0"; cases "l = 0") (simp_all add: signed_divide_int_def abs_mult abs_sgn_eq)

lemma abs_smod_int_le: "\<bar>k smod l\<bar> \<le> \<bar>k\<bar>" for k l :: int
proof -
  have "\<bar>k\<bar> mod \<bar>l\<bar> \<le> \<bar>k\<bar>"
    by (rule zmod_le_nonneg_dividend) simp
  then show ?thesis
    using abs_mod_abs_nonneg [of k l]
    by (cases "k = 0") (simp_all add: signed_modulo_int_def abs_mult abs_sgn_eq)
qed

lemma smod_int_sign: "0 \<le> k \<Longrightarrow> 0 \<le> k smod l" for k l :: int
  using abs_mod_abs_nonneg [of k l] by (simp add: signed_modulo_int_def sgn_if)

lemma smod_int_nonpos: "k \<le> 0 \<Longrightarrow> k smod l \<le> 0" for k l :: int
  using abs_mod_abs_nonneg [of k l] by (simp add: signed_modulo_int_def sgn_if)

lemma smod_int_between:
  "(0 \<le> k \<longrightarrow> 0 \<le> k smod l \<and> k smod l \<le> k) \<and> (k \<le> 0 \<longrightarrow> k \<le> k smod l \<and> k smod l \<le> 0)"
  for k l :: int
  using abs_smod_int_le [of k l] smod_int_sign [of k l] smod_int_nonpos [of k l] by arith

lemma sint_i64_of_int: "- (2 ^ 63) \<le> x \<Longrightarrow> x < 2 ^ 63 \<Longrightarrow> sint (word_of_int x :: int64) = x"
  by (simp add: sint_sbintrunc' signed_take_bit_int_eq_self_iff)

lemma sint_i64_range: "- (2 ^ 63) \<le> sint (w :: int64) \<and> sint w < 2 ^ 63"
  using sint_ge [of w] sint_lt [of w] by simp

lemma sint_i64_rem: "sint (i64_rem a b) = sint a smod sint b"
proof -
  have "- (2 ^ 63) \<le> sint a smod sint b \<and> sint a smod sint b < 2 ^ 63"
    using sint_i64_range [of a] smod_int_between [of "sint a" "sint b"] by simp arith
  then show ?thesis by (simp add: i64_rem_def sint_i64_of_int)
qed

lemma sint_rollup_span: "sint (rollup_span r) = sint r sdiv 1000000000"
proof -
  have "\<bar>sint r sdiv 1000000000\<bar> = \<bar>sint r\<bar> div 1000000000"
    using abs_sdiv_int [of "sint r" 1000000000] by simp
  moreover have "\<bar>sint r\<bar> div 1000000000 \<le> 2 ^ 63 div 1000000000"
    using sint_i64_range [of r] by (intro zdiv_mono1) auto
  ultimately have "- (2 ^ 63) \<le> sint r sdiv 1000000000 \<and> sint r sdiv 1000000000 < 2 ^ 63"
    by simp arith
  then show ?thesis
    by (simp add: rollup_span_def i64_quo_def Second_def sint_i64_of_int)
qed

lemma sdiv_billion_eq_0_iff:
  "k sdiv 1000000000 = 0 \<longleftrightarrow> - 1000000000 < k \<and> k < 1000000000" for k :: int
proof -
  have "k sdiv 1000000000 = 0 \<longleftrightarrow> \<bar>k\<bar> div 1000000000 = 0"
    using abs_sdiv_int [of k 1000000000] by auto
  also have "\<dots> \<longleftrightarrow> \<bar>k\<bar> < 1000000000"
    by auto
  finally show ?thesis by auto
qed

lemma rollup_span_eq_0_iff:
  "rollup_span r = 0 \<longleftrightarrow> - 1000000000 < sint r \<and> sint r < 1000000000"
proof -
  have "rollup_span r = 0 \<longleftrightarrow> sint (rollup_span r) = 0"
    by (simp add: signed_eq_0_iff)
  then show ?thesis by (simp add: sint_rollup_span sdiv_billion_eq_0_iff)
qed

lemma sdiv_nonneg_eq_div: "0 \<le> k \<Longrightarrow> 0 < l \<Longrightarrow> k sdiv l = k div l" for k l :: int
  by (cases "k = 0") (simp_all add: signed_divide_int_def)

lemma rollup_span_ge_1: "1000000000 \<le> sint r \<Longrightarrow> sint (rollup_span r) = sint r div 1000000000 \<and> 1 \<le> sint r div 1000000000"
proof -
  assume a: "1000000000 \<le> sint r"
  then have "1000000000 div 1000000000 \<le> sint r div (1000000000::int)" by (intro zdiv_mono1) auto
  with a show ?thesis by (simp add: sint_rollup_span sdiv_nonneg_eq_div)
qed

lemma sint_trunc_multiple:
  "sint (a - i64_rem a d) = (sint a sdiv sint d) * sint d"
proof -
  have e: "sint a - sint a smod sint d = (sint a sdiv sint d) * sint d"
    by (rule minus_smod_eq_sdiv_mult)
  have "- (2 ^ 63) \<le> sint a - sint a smod sint d \<and> sint a - sint a smod sint d < 2 ^ 63"
    using sint_i64_range [of a] smod_int_between [of "sint a" "sint d"] by simp arith
  then have "sint (a - i64_rem a d) = sint a - sint a smod sint d"
    by (simp add: sint_word_diff sint_i64_rem signed_take_bit_int_eq_self_iff)
  with e show ?thesis by simp
qed

lemma rollup_bounds_panic_iff:
  "rollup_bounds r s e = Inl DivideByZero \<longleftrightarrow> rollup_span r = 0"
  by (simp add: rollup_bounds_def Let_def)

lemma ReadRollupValues_panic_iff:
  "fst (ReadRollupValues tr L dec sc node i m tags r s e) = Inl DivideByZero \<longleftrightarrow> rollup_span r = 0"
  by (auto simp: ReadRollupValues_def rollup_bounds_def Let_def split: prod.splits)

lemma ReadRollupValues_panic_state:
  "rollup_span r = 0 \<Longrightarrow> ReadRollupValues tr L dec sc node i m tags r s e = (Inl DivideByZero, sc)"
  by (simp add: ReadRollupValues_def rollup_bounds_def Let_def)

lemma sint_endTS:
  assumes "1 \<le> sint d" "0 \<le> sint a" "sint a div sint d * sint d + sint d < 2 ^ 63"
  shows "sint (a - i64_rem a d + d) = sint a div sint d * sint d + sint d"
proof -
  have t: "sint (a - i64_rem a d) = sint a div sint d * sint d"
    using assms by (simp add: sint_trunc_multiple sdiv_nonneg_eq_div)
  have "0 \<le> sint a div sint d * sint d"
    using assms by (simp add: pos_imp_zdiv_nonneg_iff)
  then have "- (2 ^ 63) \<le> sint a div sint d * sint d + sint d"
    using assms by simp
  with assms(3) show ?thesis
    by (simp add: sint_word_add t signed_take_bit_int_eq_self_iff)
qed

text \<open>
  Claim C9, as amended. \<open>ReadRollupValues\<close> divides and takes remainders by
  \<open>int64(rollup/time.Second)\<close>. The divisor is zero, and the call panics with a
  division by zero before any request is issued, exactly when the rollup lies strictly
  between minus one second and one second. When the rollup is at least one second the
  divisor is the rollup's whole seconds, at least 1, and nothing panics: \<open>startTS\<close> is
  \<open>start.Unix()\<close> truncated towards zero to a multiple of the span, which is rounding
  down when \<open>start.Unix()\<close> is not negative; \<open>endTS\<close> is \<open>end.Unix()\<close> rounded down
  plus one span when \<open>end.Unix()\<close> is not negative and the sum fits \<open>int64\<close>.
\<close>

theorem ReadRollupValues_span:
  "(fst (ReadRollupValues tr L dec sc node id' metric tags rollup start end') = Inl DivideByZero
      \<longleftrightarrow> - 1000000000 < sint rollup \<and> sint rollup < 1000000000)
   \<and> (- 1000000000 < sint rollup \<and> sint rollup < 1000000000 \<longrightarrow>
        ReadRollupValues tr L dec sc node id' metric tags rollup start end' = (Inl DivideByZero, sc))
   \<and> (1000000000 \<le> sint rollup \<longrightarrow>
        (\<exists>startTS endTS.
           rollup_bounds rollup start end' = Inr (startTS, endTS)
           \<and> sint (rollup_span rollup) = sint rollup div 1000000000
           \<and> 1 \<le> sint (rollup_span rollup)
           \<and> sint startTS
                = sint (Unix start) sdiv sint (rollup_span rollup) * sint (rollup_span rollup)
           \<and> (0 \<le> sint (Unix start) \<longrightarrow>
                sint startTS
                  = sint (Unix start) div sint (rollup_span rollup) * sint (rollup_span rollup))
           \<and> (0 \<le> sint (Unix end')
                \<and> sint (Unix end') div sint (rollup_span rollup) * sint (rollup_span rollup)
                      + sint (rollup_span rollup) < 2 ^ 63 \<longrightarrow>
                sint endTS
                  = sint (Unix end') div sint (rollup_span rollup) * sint (rollup_span rollup)
                      + sint (rollup_span rollup))))"
proof (intro conjI impI)
  show "fst (ReadRollupValues tr L dec sc node id' metric tags rollup start end') = Inl DivideByZero
      \<longleftrightarrow> - 1000000000 < sint rollup \<and> sint rollup < 1000000000"
    by (simp only: ReadRollupValues_panic_iff rollup_span_eq_0_iff)
next
  assume "- 1000000000 < sint rollup \<and> sint rollup < 1000000000"
  then have "rollup_span rollup = 0" by (simp only: rollup_span_eq_0_iff)
  then show "ReadRollupValues tr L dec sc node id' metric tags rollup start end' = (Inl DivideByZero, sc)"
    by (rule ReadRollupValues_panic_state)
next
  assume big: "1000000000 \<le> sint rollup"
  let ?d = "rollup_span rollup"
  from big have d: "sint ?d = sint rollup div 1000000000" "1 \<le> sint ?d"
    using rollup_span_ge_1 [of rollup] by simp_all
  then have nz: "?d \<noteq> 0" by auto
  let ?a = "Unix start - i64_rem (Unix start) ?d"
  let ?b = "Unix end' - i64_rem (Unix end') ?d + ?d"
  have b: "rollup_bounds rollup start end' = Inr (?a, ?b)"
    using nz by (simp add: rollup_bounds_def Let_def)
  have s1: "sint ?a = sint (Unix start) sdiv sint ?d * sint ?d"
    by (rule sint_trunc_multiple)
  have s2: "0 \<le> sint (Unix start) \<longrightarrow> sint ?a = sint (Unix start) div sint ?d * sint ?d"
    using d(2) by (simp add: s1 sdiv_nonneg_eq_div)
  have e2: "0 \<le> sint (Unix end') \<and> sint (Unix end') div sint ?d * sint ?d + sint ?d < 2 ^ 63
      \<longrightarrow> sint ?b = sint (Unix end') div sint ?d * sint ?d + sint ?d"
    using d(2) sint_endTS [of ?d "Unix end'"] by blast
  show "\<exists>startTS endTS.
           rollup_bounds rollup start end' = Inr (startTS, endTS)
           \<and> sint (rollup_span rollup) = sint rollup div 1000000000
           \<and> 1 \<le> sint (rollup_span rollup)
           \<and> sint startTS
                = sint (Unix start) sdiv sint (rollup_span rollup) * sint (rollup_span rollup)
           \<and> (0 \<le> sint (Unix start) \<longrightarrow>
                sint startTS
                  = sint (Unix start) div sint (rollup_span rollup) * sint (rollup_span rollup))
           \<and> (0 \<le> sint (Unix end')
                \<and> sint (Unix end') div sint (rollup_span rollup) * sint (rollup_span rollup)
                      + sint (rollup_span rollup) < 2 ^ 63 \<longrightarrow>
                sint endTS
                  = sint (Unix end') div sint (rollup_span rollup) * sint (rollup_span rollup)
                      + sint (rollup_span rollup))"
    using b d s1 s2 e2 by blast
qed

text \<open>
  The claim as first stated fails twice. A rollup of minus two seconds is shorter than one
  second, yet its divisor is \<open>-2\<close> and the bounds are computed without a panic. And
  with a rollup of two seconds and \<open>start.Unix() = -5\<close>, \<open>startTS\<close> is \<open>-4\<close>, above
  \<open>start.Unix()\<close>: Go's remainder takes the sign of the dividend, so a negative time is
  rounded up.
\<close>

theorem ReadRollupValues_span_counterexample:
  "sint (- 2000000000 :: Duration) < 1000000000
   \<and> rollup_span (- 2000000000) = - 2
   \<and> rollup_bounds (- 2000000000) \<lparr>Unix = 7, Nanosecond = 0\<rparr> \<lparr>Unix = 9, Nanosecond = 0\<rparr>
         = Inr (6, 6)
   \<and> rollup_bounds 2000000000 \<lparr>Unix = - 5, Nanosecond = 0\<rparr> \<lparr>Unix = 9, Nanosecond = 0\<rparr>
         = Inr (- 4, 10)
   \<and> sint (- 5 :: int64) < sint (- 4 :: int64)"
  by (simp add: rollup_bounds_def rollup_span_def i64_quo_def i64_rem_def Second_def
        signed_divide_int_def signed_modulo_int_def Let_def)
text \<open>
  The theorem at a one-minute rollup over the interval of the repository's read test,
  and at a rollup of half a second.
\<close>

theorem ReadRollupValues_span_witness:
  "(\<exists>startTS endTS.
      rollup_bounds 60000000000 \<lparr>Unix = 1529509020, Nanosecond = 0\<rparr>
          \<lparr>Unix = 1529509200, Nanosecond = 0\<rparr> = Inr (startTS, endTS)
      \<and> sint startTS = 1529509020 \<and> sint endTS = 1529509260)
   \<and> ReadRollupValues example_transport example_lib (\<lambda>b r. (r, None))
         example_client None ''id'' ''metric'' [] 500000000
         \<lparr>Unix = 1529509020, Nanosecond = 0\<rparr> \<lparr>Unix = 1529509200, Nanosecond = 0\<rparr>
       = (Inl DivideByZero, example_client)"
proof -
  have span: "sint (rollup_span 60000000000) = 60"
    by (simp add: rollup_span_def i64_quo_def Second_def signed_divide_int_def)
  have big: "1000000000 \<le> sint (60000000000 :: Duration)"
    and small: "- 1000000000 < sint (500000000 :: Duration) \<and> sint (500000000 :: Duration) < 1000000000"
    by simp_all
  note t = ReadRollupValues_span
      [of example_transport example_lib "\<lambda>b r. (r, None)" example_client None
          "''id''" "''metric''" "[]"]
  from t [of "500000000" "\<lparr>Unix = 1529509020, Nanosecond = 0\<rparr>"
              "\<lparr>Unix = 1529509200, Nanosecond = 0\<rparr>"] small
  have p: "ReadRollupValues example_transport example_lib (\<lambda>b r. (r, None))
         example_client None ''id'' ''metric'' [] 500000000
         \<lparr>Unix = 1529509020, Nanosecond = 0\<rparr> \<lparr>Unix = 1529509200, Nanosecond = 0\<rparr>
       = (Inl DivideByZero, example_client)"
    by blast
  from t [of "60000000000" "\<lparr>Unix = 1529509020, Nanosecond = 0\<rparr>"
              "\<lparr>Unix = 1529509200, Nanosecond = 0\<rparr>"] big
  have "\<exists>startTS endTS.
      rollup_bounds 60000000000 \<lparr>Unix = 1529509020, Nanosecond = 0\<rparr>
          \<lparr>Unix = 1529509200, Nanosecond = 0\<rparr> = Inr (startTS, endTS)
      \<and> sint startTS = 1529509020 \<and> sint endTS = 1529509260"
    by (simp add: span) 
  with p show ?thesis by blast
qed

section \<open>Properties of the ring locator\<close>

text \<open>The binary search returns the first index whose position is at least the hash,
  or the ring's length when there is none.\<close>

lemma ring_sorted_nth_mono:
  "ring_sorted ds \<Longrightarrow> i \<le> j \<Longrightarrow> j < length ds \<Longrightarrow> Location (ds ! i) \<le> Location (ds ! j)"
  using sorted_nth_mono [of "map Location ds" i j] by (simp add: ring_sorted_def)

lemma lower_bound_correct:
  assumes "ring_sorted ds" "lo \<le> hi" "hi \<le> length ds"
    and "\<forall>j<lo. Location (ds ! j) < h"
    and "\<forall>j. hi \<le> j \<and> j < length ds \<longrightarrow> h \<le> Location (ds ! j)"
  shows "lower_bound ds h lo hi \<le> length ds
       \<and> (\<forall>j<lower_bound ds h lo hi. Location (ds ! j) < h)
       \<and> (\<forall>j. lower_bound ds h lo hi \<le> j \<and> j < length ds \<longrightarrow> h \<le> Location (ds ! j))"
  using assms
proof (induction ds h lo hi rule: lower_bound.induct)
  case (1 ds h lo hi)
  let ?mid = "(lo + hi) div 2"
  show ?case
  proof (cases "lo < hi")
    case False
    then have "lower_bound ds h lo hi = lo"
      by (simp add: lower_bound.simps [of ds h lo hi])
    moreover from False "1.prems"(2) have "lo = hi" by simp
    ultimately show ?thesis using "1.prems" by simp
  next
    case lt: True
    then have mid: "lo \<le> ?mid" "?mid < hi" by auto
    show ?thesis
    proof (cases "Location (ds ! ?mid) < h")
      case True
      have below: "\<forall>j<?mid + 1. Location (ds ! j) < h"
      proof (intro allI impI)
        fix j assume "j < ?mid + 1"
        then have "Location (ds ! j) \<le> Location (ds ! ?mid)"
          using "1.prems"(1,3) mid by (intro ring_sorted_nth_mono) auto
        with True show "Location (ds ! j) < h" by simp
      qed
      have "lower_bound ds h lo hi = lower_bound ds h (?mid + 1) hi"
        using lt True by (simp add: lower_bound.simps [of ds h lo hi])
      moreover have "lower_bound ds h (?mid + 1) hi \<le> length ds
       \<and> (\<forall>j<lower_bound ds h (?mid + 1) hi. Location (ds ! j) < h)
       \<and> (\<forall>j. lower_bound ds h (?mid + 1) hi \<le> j \<and> j < length ds \<longrightarrow> h \<le> Location (ds ! j))"
        using lt True mid "1.prems" below by (intro "1.IH"(1)) auto
      ultimately show ?thesis by simp
    next
      case False
      have above: "\<forall>j. ?mid \<le> j \<and> j < length ds \<longrightarrow> h \<le> Location (ds ! j)"
      proof (intro allI impI)
        fix j assume "?mid \<le> j \<and> j < length ds"
        then have "Location (ds ! ?mid) \<le> Location (ds ! j)"
          using "1.prems"(1) by (intro ring_sorted_nth_mono) auto
        with False show "h \<le> Location (ds ! j)" by simp
      qed
      have "lower_bound ds h lo hi = lower_bound ds h lo ?mid"
        using lt False by (simp add: lower_bound.simps [of ds h lo hi])
      moreover have "lower_bound ds h lo ?mid \<le> length ds
       \<and> (\<forall>j<lower_bound ds h lo ?mid. Location (ds ! j) < h)
       \<and> (\<forall>j. lower_bound ds h lo ?mid \<le> j \<and> j < length ds \<longrightarrow> h \<le> Location (ds ! j))"
        using lt False mid "1.prems" above by (intro "1.IH"(2)) auto
      ultimately show ?thesis by simp
    qed
  qed
qed

lemma lower_bound_find:
  assumes "ring_sorted ds"
  shows "find (\<lambda>d. h \<le> Location d) ds
       = (if lower_bound ds h 0 (length ds) < length ds
          then Some (ds ! lower_bound ds h 0 (length ds)) else None)"
proof -
  let ?i = "lower_bound ds h 0 (length ds)"
  have "?i \<le> length ds \<and> (\<forall>j<?i. Location (ds ! j) < h)
    \<and> (\<forall>j. ?i \<le> j \<and> j < length ds \<longrightarrow> h \<le> Location (ds ! j))"
    by (rule lower_bound_correct) (use assms in auto)
  then have c: "?i \<le> length ds" "\<forall>j<?i. Location (ds ! j) < h"
    "\<forall>j. ?i \<le> j \<and> j < length ds \<longrightarrow> h \<le> Location (ds ! j)"
    by blast+
  show ?thesis
  proof (cases "?i < length ds")
    case True
    then have "find (\<lambda>d. h \<le> Location d) ds = Some (ds ! ?i)"
      using c by (auto simp: find_Some_iff intro!: exI [of _ ?i])
    with True show ?thesis by simp
  next
    case False
    with c(1) have "?i = length ds" by simp
    with c(2) have "find (\<lambda>d. h \<le> Location d) ds = None"
      by (auto simp: find_None_iff in_set_conv_nth)
    with False show ?thesis by simp
  qed
qed

lemma collect_prefix: "\<exists>zs. collect n acc xs = acc @ zs"
proof (induction xs arbitrary: acc)
  case Nil
  then show ?case by simp
next
  case (Cons d ds)
  from Cons.IH [of acc] obtain ys where ys: "collect n acc ds = acc @ ys" by blast
  from Cons.IH [of "acc @ [d]"] obtain zs where zs: "collect n (acc @ [d]) ds = acc @ d # zs"
    by auto
  show ?case by (simp add: ys zs)
qed

lemma collect_first:
  assumes "0 < n"
  shows "collect n [] (x # xs) \<noteq> [] \<and> hd (collect n [] (x # xs)) = x"
proof -
  have "collect n [] (x # xs) = collect n [x] xs" using assms by simp
  moreover obtain zs where "collect n [x] xs = [x] @ zs" using collect_prefix by blast
  ultimately show ?thesis by simp
qed

lemma collect_distinct:
  "distinct (map ID acc) \<Longrightarrow> distinct (map ID (collect n acc xs))"
  by (induction xs arbitrary: acc) auto

lemma collect_subset: "set (collect n acc xs) \<subseteq> set acc \<union> set xs"
proof (induction xs arbitrary: acc)
  case Nil
  then show ?case by simp
next
  case (Cons d ds)
  have "set (collect n acc ds) \<subseteq> set acc \<union> set (d # ds)"
    using Cons.IH [of acc] by auto
  moreover have "set (collect n (acc @ [d]) ds) \<subseteq> set acc \<union> set (d # ds)"
    using Cons.IH [of "acc @ [d]"] by auto
  ultimately show ?case by auto
qed

lemma card_ID_distinct: "distinct (map ID acc) \<Longrightarrow> card (ID ` set acc) = length acc"
  using distinct_card [of "map ID acc"] by simp

lemma collect_length:
  "distinct (map ID acc) \<Longrightarrow> length acc \<le> n
     \<Longrightarrow> length (collect n acc xs) = min n (card (ID ` (set acc \<union> set xs)))"
proof (induction xs arbitrary: acc)
  case Nil
  then show ?case by (simp add: card_ID_distinct)
next
  case (Cons d ds)
  show ?case
  proof (cases "n \<le> length acc")
    case True
    with Cons.prems have len: "length acc = n" by simp
    have "card (ID ` set acc) \<le> card (ID ` (set acc \<union> set (d # ds)))"
      by (intro card_mono) auto
    with len Cons.prems(1) have "n \<le> card (ID ` (set acc \<union> set (d # ds)))"
      by (simp add: card_ID_distinct)
    with True len show ?thesis by simp
  next
    case False
    show ?thesis
    proof (cases "ID d \<in> set (map ID acc)")
      case True
      then have "ID ` (set acc \<union> set (d # ds)) = ID ` (set acc \<union> set ds)" by auto
      with \<open>\<not> n \<le> length acc\<close> True Cons.IH [of acc] Cons.prems show ?thesis by simp
    next
      case nin: False
      have "ID ` (set acc \<union> set (d # ds)) = ID ` (set (acc @ [d]) \<union> set ds)" by auto
      moreover have "length (collect n (acc @ [d]) ds) = min n (card (ID ` (set (acc @ [d]) \<union> set ds)))"
        using \<open>\<not> n \<le> length acc\<close> nin Cons.prems by (intro Cons.IH) auto
      ultimately show ?thesis using \<open>\<not> n \<le> length acc\<close> nin by simp
    qed
  qed
qed

lemma set_rotated: "set (drop s ds @ take s ds) = set ds"
  by (metis Un_commute append_take_drop_id set_append)

lemma hd_rotated: "s < length ds \<Longrightarrow> drop s ds @ take s ds = ds ! s # (drop (Suc s) ds @ take s ds)"
  by (simp add: Cons_nth_drop_Suc)

text \<open>
  Claim C1, as amended. For every non-empty ring kept in ascending order of position whose
  replication factor is at least 1, and every key, \<open>locate\<close> returns an ordered sequence
  of between 1 and \<open>replicationFactor\<close> descriptors of the ring, all with distinct node
  IDs. Its first element is the first descriptor in ring order whose position is at least
  the key's hash, which is a descriptor of the smallest such position, and the first
  descriptor of the ring when no position is at least the hash. Its length is the least of
  the replication factor, the ring's length and the number of distinct node IDs in the ring.
\<close>

theorem locate_owners:
  fixes ring :: "('f::linorder) Ring"
  assumes "descriptors ring \<noteq> []"
    and "ring_sorted (descriptors ring)"
    and "1 \<le> replicationFactor ring"
  shows "\<exists>res. locate hash ring key = Inr res
     \<and> 1 \<le> length res \<and> int (length res) \<le> replicationFactor ring
     \<and> distinct (map ID res)
     \<and> set res \<subseteq> set (descriptors ring)
     \<and> hd res = (case find (\<lambda>d. hash key \<le> Location d) (descriptors ring) of
                    Some d \<Rightarrow> d | None \<Rightarrow> hd (descriptors ring))
     \<and> (\<forall>d\<in>set (descriptors ring). hash key \<le> Location d \<longrightarrow>
           hash key \<le> Location (hd res) \<and> Location (hd res) \<le> Location d)
     \<and> ((\<forall>d\<in>set (descriptors ring). Location d < hash key) \<longrightarrow>
           hd res = hd (descriptors ring))
     \<and> length res = min (min (nat (replicationFactor ring)) (length (descriptors ring)))
                          (card (ID ` set (descriptors ring)))"
proof -
  let ?ds = "descriptors ring" and ?h = "hash key" and ?n = "nat (replicationFactor ring)"
  let ?i = "lower_bound ?ds ?h 0 (length ?ds)"
  define s where "s = (if ?i = length ?ds then 0 else ?i)"
  define rot where "rot = drop s ?ds @ take s ?ds"
  define res where "res = collect ?n [] rot"
  have n: "0 < ?n" using assms(3) by simp
  have bound: "?i \<le> length ?ds \<and> (\<forall>j<?i. Location (?ds ! j) < ?h)
    \<and> (\<forall>j. ?i \<le> j \<and> j < length ?ds \<longrightarrow> ?h \<le> Location (?ds ! j))"
    by (rule lower_bound_correct) (use assms in auto)
  have s: "s < length ?ds" using bound assms(1) by (auto simp: s_def)
  have s0: "\<not> ?i < length ?ds \<Longrightarrow> s = 0" and si: "?i < length ?ds \<Longrightarrow> s = ?i"
    using bound by (auto simp: s_def)
  have set_rot: "set rot = set ?ds" by (simp only: rot_def set_rotated)
  have loc: "locate hash ring key = Inr res"
    using assms(1) by (simp add: locate_def Let_def res_def rot_def s_def)
  have rot: "rot = ?ds ! s # (drop (Suc s) ?ds @ take s ?ds)"
    unfolding rot_def using s by (rule hd_rotated)
  have first: "res \<noteq> [] \<and> hd res = ?ds ! s"
    using collect_first [OF n, of "?ds ! s" "drop (Suc s) ?ds @ take s ?ds"] rot
    by (simp add: res_def)
  have len: "length res = min ?n (card (ID ` set ?ds))"
    using collect_length [of "[]" ?n rot] by (simp add: res_def set_rot)
  have card_le: "card (ID ` set ?ds) \<le> length ?ds"
    by (metis card_image_le card_length le_trans List.finite_set)
  have p1: "1 \<le> length res" using first by (cases res) auto
  have p2: "int (length res) \<le> replicationFactor ring" using len assms(3) by simp
  have p3: "distinct (map ID res)" unfolding res_def by (rule collect_distinct) simp
  have p4: "set res \<subseteq> set ?ds" using collect_subset [of ?n "[]" rot] by (simp add: res_def set_rot)
  have fnd: "find (\<lambda>d. ?h \<le> Location d) ?ds = (if ?i < length ?ds then Some (?ds ! ?i) else None)"
    using assms(2) by (rule lower_bound_find)
  have p5: "hd res = (case find (\<lambda>d. ?h \<le> Location d) ?ds of Some d \<Rightarrow> d | None \<Rightarrow> hd ?ds)"
    using first s0 si assms(1) by (cases "?i < length ?ds") (simp_all add: fnd hd_conv_nth)
  have p6: "\<forall>d\<in>set ?ds. ?h \<le> Location d \<longrightarrow> ?h \<le> Location (hd res) \<and> Location (hd res) \<le> Location d"
  proof (intro ballI impI)
    fix d assume d: "d \<in> set ?ds" "?h \<le> Location d"
    then obtain j where j: "j < length ?ds" "?ds ! j = d" by (auto simp: in_set_conv_nth)
    with d bound have ij: "?i \<le> j" by (metis not_le_imp_less leD)
    with j have "?i < length ?ds" by simp
    then have hd: "hd res = ?ds ! ?i" using first si by simp
    have "?h \<le> Location (?ds ! ?i)" using bound \<open>?i < length ?ds\<close> by blast
    moreover have "Location (?ds ! ?i) \<le> Location (?ds ! j)"
      using assms(2) ij j(1) by (rule ring_sorted_nth_mono)
    ultimately show "?h \<le> Location (hd res) \<and> Location (hd res) \<le> Location d"
      using hd j(2) by simp
  qed
  have p7: "(\<forall>d\<in>set ?ds. Location d < ?h) \<longrightarrow> hd res = hd ?ds"
  proof
    assume a: "\<forall>d\<in>set ?ds. Location d < ?h"
    have "\<not> ?i < length ?ds"
    proof
      assume "?i < length ?ds"
      then have "?h \<le> Location (?ds ! ?i)" "?ds ! ?i \<in> set ?ds" using bound by auto
      with a show False by (metis leD)
    qed
    then have "s = 0" by (rule s0)
    with first assms(1) show "hd res = hd ?ds" by (simp add: hd_conv_nth)
  qed
  have p8: "length res = min (min ?n (length ?ds)) (card (ID ` set ?ds))"
    using len card_le by simp
  show ?thesis using loc p1 p2 p3 p4 p5 p6 p7 p8 by blast
qed
text \<open>
  Without the bound on the replication factor the statement fails: on the example's
  three descriptors with a replication factor of 0 the lookup of key 50 returns no
  descriptor at all, although the ring is not empty.
\<close>

theorem locate_owners_counterexample:
  "descriptors (example_ring\<lparr>replicationFactor := 0\<rparr>) \<noteq> []
   \<and> ring_sorted (descriptors (example_ring\<lparr>replicationFactor := 0\<rparr>))
   \<and> locate (\<lambda>k. k) (example_ring\<lparr>replicationFactor := 0\<rparr>) 50 = Inr []"
  by (simp add: example_ring_def example_vnode_def ring_sorted_def locate_def lower_bound.simps
        Let_def)

text \<open>The theorem on the example ring: key 50 is owned by C then A, key 95 wraps
  around to A then B.\<close>

theorem locate_owners_witness:
  "descriptors example_ring \<noteq> [] \<and> ring_sorted (descriptors example_ring)
   \<and> 1 \<le> replicationFactor example_ring
   \<and> (\<exists>res. locate (\<lambda>k. k) example_ring 50 = Inr res
          \<and> res = [example_vnode ''C'' 2 90, example_vnode ''A'' 0 10]
          \<and> length res = 2 \<and> distinct (map ID res)
          \<and> hd res = example_vnode ''C'' 2 90)
   \<and> (\<exists>res. locate (\<lambda>k. k) example_ring 95 = Inr res
          \<and> res = [example_vnode ''A'' 0 10, example_vnode ''B'' 1 40]
          \<and> length res = 2 \<and> distinct (map ID res)
          \<and> hd res = hd (descriptors example_ring))"
proof -
  have h1: "descriptors example_ring \<noteq> []"
    and h2: "ring_sorted (descriptors example_ring)"
    and h3: "1 \<le> replicationFactor example_ring"
    by (simp_all add: example_ring_def example_vnode_def ring_sorted_def)
  have e50: "locate (\<lambda>k. k) example_ring 50
      = Inr [example_vnode ''C'' 2 90, example_vnode ''A'' 0 10]"
    by (simp add: example_ring_def example_vnode_def locate_def lower_bound.simps Let_def)
  have e95: "locate (\<lambda>k. k) example_ring 95
      = Inr [example_vnode ''A'' 0 10, example_vnode ''B'' 1 40]"
    by (simp add: example_ring_def example_vnode_def locate_def lower_bound.simps Let_def)
  have all95: "\<forall>d\<in>set (descriptors example_ring). Location d < (95::int)"
    by (simp add: example_ring_def example_vnode_def)
  from locate_owners [OF h1 h2 h3, of "\<lambda>k. k" 50] obtain r50 where
    r50: "locate (\<lambda>k. k) example_ring 50 = Inr r50" "distinct (map ID r50)"
    by blast
  from locate_owners [OF h1 h2 h3, of "\<lambda>k. k" 95] all95 obtain r95 where
    r95: "locate (\<lambda>k. k) example_ring 95 = Inr r95" "distinct (map ID r95)"
      "hd r95 = hd (descriptors example_ring)"
    by blast
  from r50 e50 have a: "\<exists>res. locate (\<lambda>k. k) example_ring 50 = Inr res
          \<and> res = [example_vnode ''C'' 2 90, example_vnode ''A'' 0 10]
          \<and> length res = 2 \<and> distinct (map ID res)
          \<and> hd res = example_vnode ''C'' 2 90"
    by auto
  from r95 e95 have b: "\<exists>res. locate (\<lambda>k. k) example_ring 95 = Inr res
          \<and> res = [example_vnode ''A'' 0 10, example_vnode ''B'' 1 40]
          \<and> length res = 2 \<and> distinct (map ID res)
          \<and> hd res = hd (descriptors example_ring)"
    by auto
  from h1 h2 h3 a b show ?thesis by blast
qed





section \<open>Properties of the tag query's dispatch\<close>

text \<open>The node of the request, and what the client's state keeps of a call.\<close>

lemma FindTags_node_explicit:
  "FindTags_node sc (Some n # rest) = (Some n, sc)"
  by (simp add: FindTags_node_def)

lemma FindTags_node_active:
  "nodes = [] \<or> hd nodes = None \<Longrightarrow> FindTags_node sc nodes = GetActiveNode sc"
  by (auto simp: FindTags_node_def)

lemma GetActiveNode_frame:
  "registry (snd (GetActiveNode sc)) = registry sc \<and> history (snd (GetActiveNode sc)) = history sc"
  by (simp add: GetActiveNode_def Let_def)

lemma FindTags_node_frame:
  "registry (snd (FindTags_node sc nodes)) = registry sc
   \<and> history (snd (FindTags_node sc nodes)) = history sc"
  by (simp add: FindTags_node_def GetActiveNode_frame)

text \<open>What the call does once the node is chosen and the options are there.\<close>

lemma FindTagsContext_request:
  assumes "FindTags_node sc nodes = (node, sc1)"
  shows "snd (FindTagsContext tr L D sc ctx accountID query (Some opts) nodes)
           = sc1\<lparr>history := history sc1 @ [(node, ''GET'', FindTags_url L D node accountID query opts)]\<rparr>"
  using assms
  by (simp add: FindTagsContext_def DoRequestContext_def Let_def split: sum.splits prod.splits option.splits)

lemma FindTagsContext_transport_error:
  assumes "FindTags_node sc nodes = (node, sc1)"
    and "tr ctx node ''GET'' (FindTags_url L D node accountID query opts) None (FindTags_headers opts) = Inl e"
  shows "fst (FindTagsContext tr L D sc ctx accountID query (Some opts) nodes) = Inr (None, Some e)"
  using assms
  by (simp add: FindTagsContext_def DoRequestContext_def Let_def)

lemma FindTagsContext_decode_error:
  assumes "FindTags_node sc nodes = (node, sc1)"
    and "tr ctx node ''GET'' (FindTags_url L D node accountID query opts) None (FindTags_headers opts) = Inr (body, header)"
    and "snd (FindTags_decode D opts body \<lparr>Items = [], FindCount = None, Count = 0\<rparr>) = Some e"
  shows "fst (FindTagsContext tr L D sc ctx accountID query (Some opts) nodes)
       = Inr (None, Some (Errorf ''unable to decode IRONdb response: '' e))"
  using assms
  by (auto simp: FindTagsContext_def DoRequestContext_def Let_def split: prod.splits)

lemma FindTagsContext_nil_options:
  assumes "FindTags_node sc nodes = (node, sc1)"
  shows "FindTagsContext tr L D sc ctx accountID query None nodes = (Inl NilDereference, sc1)"
  using assms by (simp add: FindTagsContext_def)

lemma activeNodes_reweigh:
  "activeNodes (sc\<lparr>registry := map (\<lambda>n. n\<lparr>weight := w n\<rparr>) (registry sc)\<rparr>)
     = map (\<lambda>n. n\<lparr>weight := w n\<rparr>) (activeNodes sc)"
  by (simp add: activeNodes_def filter_map o_def)

lemma GetActiveNode_reweigh:
  "fst (GetActiveNode (sc\<lparr>registry := map (\<lambda>n. n\<lparr>weight := w n\<rparr>) (registry sc)\<rparr>))
     = map_option (\<lambda>n. n\<lparr>weight := w n\<rparr>) (fst (GetActiveNode sc))"
  by (simp add: GetActiveNode_def Let_def activeNodes_reweigh)

lemma GetActiveNode_active:
  assumes "activeNodes sc \<noteq> []"
  shows "\<exists>a. fst (GetActiveNode sc) = Some a \<and> a \<in> set (registry sc) \<and> status a = Active
           \<and> a = activeNodes sc ! (cursor sc mod length (activeNodes sc))"
proof -
  let ?a = "activeNodes sc ! (cursor sc mod length (activeNodes sc))"
  have "?a \<in> set (activeNodes sc)" using assms by simp
  then have "?a \<in> set (registry sc) \<and> status ?a = Active" by (simp add: activeNodes_def)
  then show ?thesis using assms by (simp add: GetActiveNode_def Let_def)
qed

lemma GetActiveNode_none:
  "activeNodes sc = [] \<Longrightarrow> GetActiveNode sc = (None, sc)"
  by (simp add: GetActiveNode_def)

text \<open>
  Claim C3. When \<open>FindTagsContext\<close> is called with a first node that is not \<open>nil\<close>, every
  request the call issues goes to that node and there is at most one; the active-node
  selection is not consulted (the rotation and the registry are as before). With options
  given, exactly one request is issued, to that node, and when the transport fails the
  call returns that error at once, with no result and no further request.
\<close>

theorem FindTagsContext_explicit_node:
  assumes "nodes = Some n # rest"
  shows "(\<exists>new. history (snd (FindTagsContext tr L D sc ctx accountID query options nodes))
                 = history sc @ new
            \<and> length new \<le> 1 \<and> (\<forall>x\<in>set new. fst x = Some n))
     \<and> registry (snd (FindTagsContext tr L D sc ctx accountID query options nodes)) = registry sc
     \<and> cursor (snd (FindTagsContext tr L D sc ctx accountID query options nodes)) = cursor sc
     \<and> (\<forall>opts. options = Some opts \<longrightarrow>
           history (snd (FindTagsContext tr L D sc ctx accountID query options nodes))
             = history sc @ [(Some n, ''GET'', FindTags_url L D (Some n) accountID query opts)]
           \<and> (\<forall>e. tr ctx (Some n) ''GET'' (FindTags_url L D (Some n) accountID query opts) None
                      (FindTags_headers opts) = Inl e \<longrightarrow>
                 fst (FindTagsContext tr L D sc ctx accountID query options nodes)
                   = Inr (None, Some e)))"
proof -
  have node: "FindTags_node sc nodes = (Some n, sc)"
    using assms by (simp add: FindTags_node_explicit)
  show ?thesis
  proof (cases options)
    case None
    then show ?thesis using FindTagsContext_nil_options [OF node] by simp
  next
    case (Some opts)
    then show ?thesis
      using FindTagsContext_request [OF node, of tr L D ctx accountID query opts]
        FindTagsContext_transport_error [OF node, of tr ctx L D accountID query opts]
      by simp
  qed
qed

text \<open>The theorem on the example cluster: the third node is named first and refuses
  the connection; the first node, named after it, is never tried.\<close>

theorem FindTagsContext_explicit_node_witness:
  "fst (FindTagsContext example_transport example_lib example_deps example_client Background 1
          ''test'' (Some example_options)
          [Some (example_node ''n3'' Active), Some (example_node ''n1'' Active)])
     = Inr (None, Some (Failure ''connection refused''))
   \<and> history (snd (FindTagsContext example_transport example_lib example_deps example_client
          Background 1 ''test'' (Some example_options)
          [Some (example_node ''n3'' Active), Some (example_node ''n1'' Active)]))
     = [(Some (example_node ''n3'' Active), ''GET'',
         ''http://n3:8112/find/1/tags?query=test&activity=0&latest=0'')]
   \<and> cursor (snd (FindTagsContext example_transport example_lib example_deps example_client
          Background 1 ''test'' (Some example_options)
          [Some (example_node ''n3'' Active), Some (example_node ''n1'' Active)])) = 0"
proof -
  let ?n3 = "example_node ''n3'' Active"
  have url: "FindTags_url example_lib example_deps (Some ?n3) 1 ''test'' example_options
      = ''http://n3:8112/find/1/tags?query=test&activity=0&latest=0''"
    by code_simp
  have refused: "example_transport Background (Some ?n3) ''GET''
      (FindTags_url example_lib example_deps (Some ?n3) 1 ''test'' example_options) None
      (FindTags_headers example_options) = Inl (Failure ''connection refused'')"
    by (simp add: example_transport_def example_node_def)
  have start: "history example_client = [] \<and> cursor example_client = 0"
    by (simp add: example_client_def)
  from FindTagsContext_explicit_node
    [of "[Some ?n3, Some (example_node ''n1'' Active)]" ?n3 "[Some (example_node ''n1'' Active)]"
        example_transport example_lib example_deps example_client Background 1 "''test''"
        "Some example_options", OF refl]
  have t: "cursor (snd (FindTagsContext example_transport example_lib example_deps example_client
          Background 1 ''test'' (Some example_options) [Some ?n3, Some (example_node ''n1'' Active)]))
        = cursor example_client"
    and h: "history (snd (FindTagsContext example_transport example_lib example_deps example_client
          Background 1 ''test'' (Some example_options) [Some ?n3, Some (example_node ''n1'' Active)]))
        = history example_client @ [(Some ?n3, ''GET'',
            FindTags_url example_lib example_deps (Some ?n3) 1 ''test'' example_options)]"
    and r: "example_transport Background (Some ?n3) ''GET''
              (FindTags_url example_lib example_deps (Some ?n3) 1 ''test'' example_options) None
              (FindTags_headers example_options) = Inl (Failure ''connection refused'')
        \<longrightarrow> fst (FindTagsContext example_transport example_lib example_deps example_client
              Background 1 ''test'' (Some example_options)
              [Some ?n3, Some (example_node ''n1'' Active)])
            = Inr (None, Some (Failure ''connection refused''))"
    by blast+
  from r refused have "fst (FindTagsContext example_transport example_lib example_deps example_client
              Background 1 ''test'' (Some example_options)
              [Some ?n3, Some (example_node ''n1'' Active)])
            = Inr (None, Some (Failure ''connection refused''))" by (rule mp)
  with t h show ?thesis by (simp only: url start append_Nil)
qed

text \<open>
  Claim C4. When the transport answers and decoding the response's body into the shape the
  call expects fails, \<open>FindTagsContext\<close> returns the decode error (wrapped by
  \<open>fmt.Errorf\<close> with \<open>%w\<close>) with no result, and the one request that was answered is the
  only one the call issues: nothing is retried, on that node or on another.
\<close>

theorem FindTagsContext_decode_failure:
  assumes "FindTags_node sc nodes = (node, sc1)"
    and "tr ctx node ''GET'' (FindTags_url L D node accountID query opts) None
           (FindTags_headers opts) = Inr (body, header)"
    and "CountOnly opts \<noteq> 0 \<longrightarrow> snd (decodeJSON_count D body None) = Some e"
    and "CountOnly opts = 0 \<longrightarrow> snd (decodeJSON_items D body []) = Some e"
  shows "fst (FindTagsContext tr L D sc ctx accountID query (Some opts) nodes)
           = Inr (None, Some (Errorf ''unable to decode IRONdb response: '' e))
     \<and> history (snd (FindTagsContext tr L D sc ctx accountID query (Some opts) nodes))
           = history sc @ [(node, ''GET'', FindTags_url L D node accountID query opts)]"
proof -
  have "snd (FindTags_decode D opts body \<lparr>Items = [], FindCount = None, Count = 0\<rparr>) = Some e"
    using assms(3,4) by (cases "CountOnly opts = 0") (auto simp: FindTags_decode_def split: prod.splits)
  then have "fst (FindTagsContext tr L D sc ctx accountID query (Some opts) nodes)
           = Inr (None, Some (Errorf ''unable to decode IRONdb response: '' e))"
    using assms(1,2) by (intro FindTagsContext_decode_error)
  moreover have "history sc1 = history sc"
    using FindTags_node_frame [of sc nodes] assms(1) by simp
  ultimately show ?thesis
    using FindTagsContext_request [OF assms(1), of tr L D ctx accountID query opts] by simp
qed

text \<open>The theorem on the example cluster: the second node answers with a page that
  is no JSON.\<close>

theorem FindTagsContext_decode_failure_witness:
  "fst (FindTagsContext example_transport example_lib example_deps example_client Background 1
          ''test'' (Some example_options) [Some (example_node ''n2'' Inactive)])
     = Inr (None, Some (Errorf ''unable to decode IRONdb response: '' (Failure ''invalid character'')))
   \<and> history (snd (FindTagsContext example_transport example_lib example_deps example_client
          Background 1 ''test'' (Some example_options) [Some (example_node ''n2'' Inactive)]))
     = [(Some (example_node ''n2'' Inactive), ''GET'',
         ''http://n2:8112/find/1/tags?query=test&activity=0&latest=0'')]"
proof -
  let ?n2 = "example_node ''n2'' Inactive"
  have node: "FindTags_node example_client [Some ?n2] = (Some ?n2, example_client)"
    by (simp add: FindTags_node_def)
  have url: "FindTags_url example_lib example_deps (Some ?n2) 1 ''test'' example_options
      = ''http://n2:8112/find/1/tags?query=test&activity=0&latest=0''"
    by code_simp
  have answer: "example_transport Background (Some ?n2) ''GET''
      (FindTags_url example_lib example_deps (Some ?n2) 1 ''test'' example_options) None
      (FindTags_headers example_options) = Inr (''<html>'', None)"
    by (simp add: example_transport_def example_node_def)
  have scan: "json_scan ''<html>'' = None" by code_simp
  have c1: "CountOnly example_options \<noteq> 0 \<longrightarrow>
      snd (decodeJSON_count example_deps ''<html>'' None) = Some (Failure ''invalid character'')"
    by (simp add: example_deps_def)
  have c2: "CountOnly example_options = 0 \<longrightarrow>
      snd (decodeJSON_items example_deps ''<html>'' []) = Some (Failure ''invalid character'')"
    by (simp add: example_deps_def scan)
  have start: "history example_client = []" by (simp add: example_client_def)
  from FindTagsContext_decode_failure
    [where tr = example_transport and ctx = Background and L = example_lib and D = example_deps
       and opts = example_options and body = "''<html>''" and header = None
       and e = "Failure ''invalid character''", OF node answer c1 c2]
  show ?thesis by (simp only: url start append_Nil)
qed

text \<open>
  Claim C6. When \<open>FindTagsContext\<close> is called with no node, or with a first node that is
  \<open>nil\<close>, the request goes to the node \<open>GetActiveNode\<close> returns. When some node is active
  that node is a record of the registry whose status is \<open>Active\<close>, the one at the
  rotation's position among the active nodes in registry order (the first one when the
  rotation starts); when none is, no node is selected. The selection does not read the
  weights: changing them changes nothing but the weight of the node selected.
\<close>

theorem FindTagsContext_any_active_node:
  assumes "nodes = [] \<or> hd nodes = None"
  shows "FindTags_node sc nodes = GetActiveNode sc
     \<and> history (snd (FindTagsContext tr L D sc ctx accountID query (Some opts) nodes))
          = history sc @ [(fst (GetActiveNode sc), ''GET'',
                           FindTags_url L D (fst (GetActiveNode sc)) accountID query opts)]
     \<and> (activeNodes sc \<noteq> [] \<longrightarrow>
          (\<exists>a. fst (GetActiveNode sc) = Some a \<and> a \<in> set (registry sc) \<and> status a = Active
             \<and> a = activeNodes sc ! (cursor sc mod length (activeNodes sc))))
     \<and> (activeNodes sc = [] \<longrightarrow> fst (GetActiveNode sc) = None)
     \<and> (\<forall>w. fst (GetActiveNode (sc\<lparr>registry := map (\<lambda>n. n\<lparr>weight := w n\<rparr>) (registry sc)\<rparr>))
            = map_option (\<lambda>n. n\<lparr>weight := w n\<rparr>) (fst (GetActiveNode sc)))"
proof -
  have node: "FindTags_node sc nodes = GetActiveNode sc"
    using assms by (rule FindTags_node_active)
  then have node': "FindTags_node sc nodes = (fst (GetActiveNode sc), snd (GetActiveNode sc))"
    by simp
  have "history (snd (FindTagsContext tr L D sc ctx accountID query (Some opts) nodes))
          = history sc @ [(fst (GetActiveNode sc), ''GET'',
                           FindTags_url L D (fst (GetActiveNode sc)) accountID query opts)]"
    using FindTagsContext_request [OF node', of tr L D ctx accountID query opts]
    by (simp add: GetActiveNode_frame)
  then show ?thesis
    using node GetActiveNode_active [of sc] GetActiveNode_none [of sc] GetActiveNode_reweigh [of _ sc]
    by simp
qed

text \<open>The theorem on the example cluster: the first active node at the start of the
  rotation, the next active one (the third node, the second being inactive) after it.\<close>

theorem FindTagsContext_any_active_node_witness:
  "fst (GetActiveNode example_client) = Some (example_node ''n1'' Active)
   \<and> history (snd (FindTagsContext example_transport example_lib example_deps example_client
          Background 1 ''test'' (Some example_options) []))
     = [(Some (example_node ''n1'' Active), ''GET'',
         ''http://n1:8112/find/1/tags?query=test&activity=0&latest=0'')]
   \<and> fst (GetActiveNode (example_client\<lparr>cursor := 1\<rparr>)) = Some (example_node ''n3'' Active)
   \<and> history (snd (FindTagsContext example_transport example_lib example_deps
          (example_client\<lparr>cursor := 1\<rparr>) Background 1 ''test'' (Some example_options) [None]))
     = [(Some (example_node ''n3'' Active), ''GET'',
         ''http://n3:8112/find/1/tags?query=test&activity=0&latest=0'')]"
proof -
  have a0: "fst (GetActiveNode example_client) = Some (example_node ''n1'' Active)"
    by (simp add: GetActiveNode_def activeNodes_def example_client_def example_node_def Let_def)
  have a1: "fst (GetActiveNode (example_client\<lparr>cursor := 1\<rparr>)) = Some (example_node ''n3'' Active)"
    by (simp add: GetActiveNode_def activeNodes_def example_client_def example_node_def Let_def)
  have url1: "FindTags_url example_lib example_deps (Some (example_node ''n1'' Active)) 1 ''test''
      example_options = ''http://n1:8112/find/1/tags?query=test&activity=0&latest=0''"
    by code_simp
  have url3: "FindTags_url example_lib example_deps (Some (example_node ''n3'' Active)) 1 ''test''
      example_options = ''http://n3:8112/find/1/tags?query=test&activity=0&latest=0''"
    by code_simp
  have start: "history example_client = []" by (simp add: example_client_def)
  have e: "([] :: SnowthNode option list) = [] \<or> hd ([] :: SnowthNode option list) = None" by simp
  have n: "[None :: SnowthNode option] = [] \<or> hd [None :: SnowthNode option] = None" by simp
  from FindTagsContext_any_active_node [OF e, of example_client example_transport example_lib
      example_deps Background 1 "''test''" example_options] a0 url1 start
  have h0: "history (snd (FindTagsContext example_transport example_lib example_deps example_client
          Background 1 ''test'' (Some example_options) []))
     = [(Some (example_node ''n1'' Active), ''GET'',
         ''http://n1:8112/find/1/tags?query=test&activity=0&latest=0'')]"
    by simp
  from FindTagsContext_any_active_node [OF n, of "example_client\<lparr>cursor := 1\<rparr>" example_transport
      example_lib example_deps Background 1 "''test''" example_options] a1 url3 start
  have h1: "history (snd (FindTagsContext example_transport example_lib example_deps
          (example_client\<lparr>cursor := 1\<rparr>) Background 1 ''test'' (Some example_options) [None]))
     = [(Some (example_node ''n3'' Active), ''GET'',
         ''http://n3:8112/find/1/tags?query=test&activity=0&latest=0'')]"
    by simp
  from a0 a1 h0 h1 show ?thesis by simp
qed

section \<open>Properties of decoding a rollup value\<close>

lemma length_store_array: "length (fst (store_array L slots xs rv)) = length xs"
proof (induction xs arbitrary: slots rv)
  case Nil
  show ?case by simp
next
  case (Cons x xs)
  obtain s' rv1 e1 where s: "store L (case slots of [] \<Rightarrow> NilValue | s # _ \<Rightarrow> s) x rv = (s', rv1, e1)"
    by (cases "store L (case slots of [] \<Rightarrow> NilValue | s # _ \<Rightarrow> s) x rv") auto
  obtain rest rv2 e2 where r: "store_array L (tl slots) xs rv1 = (rest, rv2, e2)"
    by (cases "store_array L (tl slots) xs rv1") auto
  from Cons.IH [of "tl slots" rv1] r have "length rest = length xs" by simp
  with s r show ?case by simp
qed

lemma json_Unmarshal_length:
  "length (fst (json_Unmarshal scan L b [PtrTimestamp, PtrValue] rv)) < 2
     \<longleftrightarrow> scan b = Some JNull \<or> (\<exists>xs. scan b = Some (JArray xs) \<and> length xs < 2)"
  by (auto simp: json_Unmarshal_def length_store_array split: option.splits json.splits)

lemma json_Unmarshal_untouched:
  assumes "\<forall>xs. scan b \<noteq> Some (JArray xs)" and "scan b \<noteq> Some JNull"
  shows "\<exists>e. json_Unmarshal scan L b tt rv = (tt, rv, Some e)"
  using assms by (auto simp: json_Unmarshal_def split: option.splits json.splits)

text \<open>
  Claim C8. For every input \<open>b\<close>, \<open>RollupValues.UnmarshalJSON\<close> returns an error if and only
  if \<open>json.Unmarshal\<close> leaves the destination slice with fewer than two elements, which is
  when \<open>b\<close> is \<open>null\<close> or an array of fewer than two values. The error of
  \<open>json.Unmarshal\<close> itself is dropped: for every input that is not valid JSON, or is a
  valid value other than an array or \<open>null\<close>, \<open>json.Unmarshal\<close> reports an error, yet
  \<open>UnmarshalJSON\<close> returns no error and leaves \<open>Timestamp\<close> and \<open>Value\<close> as they were.
  The object \<open>{}\<close> and the cut-off array \<open>[1380000000,50\<close> are such inputs: on a zero
  receiver they return no error and leave both fields zero.
\<close>

theorem RollupValues_UnmarshalJSON_error_iff:
  "(snd (RollupValues_UnmarshalJSON scan L rv b) \<noteq> None
      \<longleftrightarrow> length (fst (json_Unmarshal scan L b [PtrTimestamp, PtrValue] rv)) < 2)
   \<and> (snd (RollupValues_UnmarshalJSON scan L rv b) \<noteq> None
      \<longleftrightarrow> scan b = Some JNull \<or> (\<exists>xs. scan b = Some (JArray xs) \<and> length xs < 2))
   \<and> ((\<forall>xs. scan b \<noteq> Some (JArray xs)) \<and> scan b \<noteq> Some JNull \<longrightarrow>
        snd (snd (json_Unmarshal scan L b [PtrTimestamp, PtrValue] rv)) \<noteq> None
        \<and> RollupValues_UnmarshalJSON scan L rv b = (rv, None))
   \<and> RollupValues_UnmarshalJSON json_scan L \<lparr>Timestamp = 0, Value = Float64 0\<rparr> ''{}''
        = (\<lparr>Timestamp = 0, Value = Float64 0\<rparr>, None)
   \<and> RollupValues_UnmarshalJSON json_scan L \<lparr>Timestamp = 0, Value = Float64 0\<rparr> ''[1380000000,50''
        = (\<lparr>Timestamp = 0, Value = Float64 0\<rparr>, None)"
proof (intro conjI impI)
  show a: "snd (RollupValues_UnmarshalJSON scan L rv b) \<noteq> None
      \<longleftrightarrow> length (fst (json_Unmarshal scan L b [PtrTimestamp, PtrValue] rv)) < 2"
    by (simp add: RollupValues_UnmarshalJSON_def split: prod.splits)
  then show "snd (RollupValues_UnmarshalJSON scan L rv b) \<noteq> None
      \<longleftrightarrow> scan b = Some JNull \<or> (\<exists>xs. scan b = Some (JArray xs) \<and> length xs < 2)"
    by (simp only: json_Unmarshal_length)
next
  assume h: "(\<forall>xs. scan b \<noteq> Some (JArray xs)) \<and> scan b \<noteq> Some JNull"
  then obtain e where e: "json_Unmarshal scan L b [PtrTimestamp, PtrValue] rv
      = ([PtrTimestamp, PtrValue], rv, Some e)"
    using json_Unmarshal_untouched [of scan b L "[PtrTimestamp, PtrValue]" rv] by blast
  then show "snd (snd (json_Unmarshal scan L b [PtrTimestamp, PtrValue] rv)) \<noteq> None" by simp
  from e show "RollupValues_UnmarshalJSON scan L rv b = (rv, None)"
    by (simp add: RollupValues_UnmarshalJSON_def)
next
  have "json_scan ''{}'' = Some (JObject [])" by code_simp
  then show "RollupValues_UnmarshalJSON json_scan L \<lparr>Timestamp = 0, Value = Float64 0\<rparr> ''{}''
        = (\<lparr>Timestamp = 0, Value = Float64 0\<rparr>, None)"
    by (simp add: RollupValues_UnmarshalJSON_def json_Unmarshal_def)
next
  have "json_scan ''[1380000000,50'' = None" by code_simp
  then show "RollupValues_UnmarshalJSON json_scan L \<lparr>Timestamp = 0, Value = Float64 0\<rparr> ''[1380000000,50''
        = (\<lparr>Timestamp = 0, Value = Float64 0\<rparr>, None)"
    by (simp add: RollupValues_UnmarshalJSON_def json_Unmarshal_def)
qed

text \<open>The theorem with the scanner of the JSON grammar: an input that is no JSON is
  accepted and changes nothing, an array of one value is refused, and a pair is decoded.\<close>

theorem RollupValues_UnmarshalJSON_error_iff_witness:
  "RollupValues_UnmarshalJSON json_scan example_lib \<lparr>Timestamp = 0, Value = Float64 0\<rparr> ''garbage''
     = (\<lparr>Timestamp = 0, Value = Float64 0\<rparr>, None)
   \<and> snd (RollupValues_UnmarshalJSON json_scan example_lib \<lparr>Timestamp = 0, Value = Float64 0\<rparr>
          ''[1380000000]'') \<noteq> None
   \<and> RollupValues_UnmarshalJSON json_scan example_lib \<lparr>Timestamp = 0, Value = Float64 0\<rparr>
          ''[1380000000,50]''
     = (\<lparr>Timestamp = 1380000000, Value = Float64 0x4049000000000000\<rparr>, None)"
proof -
  have g: "json_scan ''garbage'' = None" by code_simp
  have o: "json_scan ''[1380000000]'' = Some (JArray [JNumber ''1380000000''])" by code_simp
  have g': "(\<forall>xs. json_scan ''garbage'' \<noteq> Some (JArray xs)) \<and> json_scan ''garbage'' \<noteq> Some JNull"
    by (simp add: g)
  have o': "json_scan ''[1380000000]'' = Some JNull
      \<or> (\<exists>xs. json_scan ''[1380000000]'' = Some (JArray xs) \<and> length xs < 2)"
    by (simp add: o)
  note tg = RollupValues_UnmarshalJSON_error_iff
    [where scan = json_scan and L = example_lib and rv = "\<lparr>Timestamp = 0, Value = Float64 0\<rparr>"
       and b = "''garbage''"]
  note to = RollupValues_UnmarshalJSON_error_iff
    [where scan = json_scan and L = example_lib and rv = "\<lparr>Timestamp = 0, Value = Float64 0\<rparr>"
       and b = "''[1380000000]''"]
  have a: "RollupValues_UnmarshalJSON json_scan example_lib \<lparr>Timestamp = 0, Value = Float64 0\<rparr>
      ''garbage'' = (\<lparr>Timestamp = 0, Value = Float64 0\<rparr>, None)"
    using tg [THEN conjunct2, THEN conjunct2, THEN conjunct1, rule_format, OF g', THEN conjunct2] .
  have b: "snd (RollupValues_UnmarshalJSON json_scan example_lib \<lparr>Timestamp = 0, Value = Float64 0\<rparr>
          ''[1380000000]'') \<noteq> None"
    using to [THEN conjunct2, THEN conjunct1] o' by (rule iffD2)
  have c: "RollupValues_UnmarshalJSON json_scan example_lib \<lparr>Timestamp = 0, Value = Float64 0\<rparr>
          ''[1380000000,50]''
     = (\<lparr>Timestamp = 1380000000, Value = Float64 0x4049000000000000\<rparr>, None)"
    by code_simp
  from a b c show ?thesis by (intro conjI)
qed

end
